theory Spec2Isabelle
  imports Complex_Main "HOL-Library.Log_Nat" "HOL-Library.Sublist"
begin

section \<open>JavaScript numbers\<close>

text \<open>
  The TypeScript sources compute with the \<open>number\<close> type, IEEE-754 binary64. A number is
  modelled as one of the special values \<open>NaN\<close>, \<open>+Infinity\<close>, \<open>-Infinity\<close>, \<open>-0\<close>, or a
  finite value carried by the real number it denotes (\<open>Fin 0\<close> is \<open>+0\<close>). Every arithmetic
  operation computes the exact result and rounds it to the nearest binary64 value,
  ties to even, as the language prescribes.
\<close>

datatype jsnum = NaN | PInf | NInf | NZero | Fin real

text \<open>Round to the nearest integer, ties to the even one.\<close>

definition round_even :: "real \<Rightarrow> int" where
  "round_even x =
     (let f = \<lfloor>x\<rfloor>; d = x - of_int f
      in if d < 1 / 2 then f else if 1 / 2 < d then f + 1 else if even f then f else f + 1)"

text \<open>The binary exponent of a positive real: \<open>2 powi ilog2 m \<le> m < 2 powi (ilog2 m + 1)\<close>.\<close>

definition ilog2 :: "real \<Rightarrow> int" where
  "ilog2 m = (if 1 \<le> m then bitlen \<lfloor>m\<rfloor> - 1 else - bitlen (\<lceil>1 / m\<rceil> - 1))"

text \<open>
  The spacing of binary64 values around a positive magnitude: 52 fraction bits below the
  leading bit, and the fixed spacing \<open>2 powi (-1074)\<close> in the subnormal range.
\<close>

definition ulp64 :: "real \<Rightarrow> real" where
  "ulp64 m = 2 powi (max (ilog2 m) (- 1022) - 52)"

definition rnd64 :: "real \<Rightarrow> real" where
  "rnd64 m = (if m = 0 then 0 else of_int (round_even (m / ulp64 m)) * ulp64 m)"

definition js_inf :: "bool \<Rightarrow> jsnum" where
  "js_inf s = (if s then NInf else PInf)"

definition js_zero :: "bool \<Rightarrow> jsnum" where
  "js_zero s = (if s then NZero else Fin 0)"

text \<open>
  The number with sign \<open>s\<close> (\<open>True\<close> is negative) nearest to the magnitude \<open>m\<close>: overflow
  gives an infinity, underflow a signed zero.
\<close>

definition js_round :: "bool \<Rightarrow> real \<Rightarrow> jsnum" where
  "js_round s m =
     (let r = rnd64 m
      in if 2 ^ 1024 \<le> r then js_inf s
         else if r = 0 then js_zero s
         else Fin (if s then - r else r))"

definition js_of_real :: "real \<Rightarrow> jsnum" where
  "js_of_real q = js_round (q < 0) \<bar>q\<bar>"

definition js_of_int :: "int \<Rightarrow> jsnum" where
  "js_of_int n = js_of_real (of_int n)"

fun val :: "jsnum \<Rightarrow> real" where
  "val (Fin r) = r"
| "val _ = 0"

definition js_is_zero :: "jsnum \<Rightarrow> bool" where
  "js_is_zero x = (x = NZero \<or> x = Fin 0)"

definition js_infinite :: "jsnum \<Rightarrow> bool" where
  "js_infinite x = (x = PInf \<or> x = NInf)"

definition js_finite :: "jsnum \<Rightarrow> bool" where
  "js_finite x = (x \<noteq> NaN \<and> x \<noteq> PInf \<and> x \<noteq> NInf)"

text \<open>The sign bit.\<close>

fun js_negative :: "jsnum \<Rightarrow> bool" where
  "js_negative NInf = True"
| "js_negative NZero = True"
| "js_negative (Fin r) = (r < 0)"
| "js_negative _ = False"

fun js_neg :: "jsnum \<Rightarrow> jsnum" where
  "js_neg NaN = NaN"
| "js_neg PInf = NInf"
| "js_neg NInf = PInf"
| "js_neg NZero = Fin 0"
| "js_neg (Fin r) = (if r = 0 then NZero else Fin (- r))"

fun js_abs :: "jsnum \<Rightarrow> jsnum" where
  "js_abs NaN = NaN"
| "js_abs PInf = PInf"
| "js_abs NInf = PInf"
| "js_abs NZero = Fin 0"
| "js_abs (Fin r) = Fin \<bar>r\<bar>"

definition js_add :: "jsnum \<Rightarrow> jsnum \<Rightarrow> jsnum" where
  "js_add x y =
     (if x = NaN \<or> y = NaN then NaN
      else if js_infinite x then (if js_infinite y \<and> x \<noteq> y then NaN else x)
      else if js_infinite y then y
      else let v = val x + val y
           in if v = 0 then (if x = NZero \<and> y = NZero then NZero else Fin 0)
              else js_round (v < 0) \<bar>v\<bar>)"

definition js_sub :: "jsnum \<Rightarrow> jsnum \<Rightarrow> jsnum" where
  "js_sub x y = js_add x (js_neg y)"

definition js_mul :: "jsnum \<Rightarrow> jsnum \<Rightarrow> jsnum" where
  "js_mul x y =
     (if x = NaN \<or> y = NaN then NaN
      else if js_infinite x \<or> js_infinite y
      then (if js_is_zero x \<or> js_is_zero y then NaN else js_inf (js_negative x \<noteq> js_negative y))
      else js_round (js_negative x \<noteq> js_negative y) (\<bar>val x\<bar> * \<bar>val y\<bar>))"

definition js_div :: "jsnum \<Rightarrow> jsnum \<Rightarrow> jsnum" where
  "js_div x y =
     (if x = NaN \<or> y = NaN then NaN
      else if js_infinite x
      then (if js_infinite y then NaN else js_inf (js_negative x \<noteq> js_negative y))
      else if js_infinite y then js_zero (js_negative x \<noteq> js_negative y)
      else if js_is_zero y
      then (if js_is_zero x then NaN else js_inf (js_negative x \<noteq> js_negative y))
      else js_round (js_negative x \<noteq> js_negative y) (\<bar>val x\<bar> / \<bar>val y\<bar>))"

text \<open>The comparisons \<open><\<close> and \<open><=\<close>: false whenever an operand is \<open>NaN\<close>.\<close>

definition js_lt :: "jsnum \<Rightarrow> jsnum \<Rightarrow> bool" where
  "js_lt x y =
     (if x = NaN \<or> y = NaN then False
      else if x = PInf \<or> y = NInf then False
      else if x = NInf \<or> y = PInf then True
      else val x < val y)"

definition js_le :: "jsnum \<Rightarrow> jsnum \<Rightarrow> bool" where
  "js_le x y =
     (if x = NaN \<or> y = NaN then False
      else if x = NInf \<or> y = PInf then True
      else if x = PInf \<or> y = NInf then False
      else val x \<le> val y)"

definition js_gt :: "jsnum \<Rightarrow> jsnum \<Rightarrow> bool" where
  "js_gt x y = js_lt y x"

text \<open>Strict equality \<open>===\<close> on numbers: \<open>NaN\<close> equals nothing, the two zeros are equal.\<close>

definition js_eq :: "jsnum \<Rightarrow> jsnum \<Rightarrow> bool" where
  "js_eq x y = (x \<noteq> NaN \<and> y \<noteq> NaN \<and> (x = y \<or> js_is_zero x \<and> js_is_zero y))"

text \<open>Truthiness of a number, as \<open>!x\<close> and \<open>x || y\<close> test it.\<close>

definition js_truthy :: "jsnum \<Rightarrow> bool" where
  "js_truthy x = (x \<noteq> NaN \<and> \<not> js_is_zero x)"

definition js_isNaN :: "jsnum \<Rightarrow> bool" where
  "js_isNaN x = (x = NaN)"

fun js_floor :: "jsnum \<Rightarrow> jsnum" where
  "js_floor (Fin r) = Fin (of_int \<lfloor>r\<rfloor>)"
| "js_floor x = x"

section \<open>Facts about the number model\<close>

text \<open>The equations that evaluate an operation on explicit numbers.\<close>

lemmas js_eval = js_div_def js_mul_def js_add_def js_sub_def js_round_def rnd64_def ulp64_def
  ilog2_def round_even_def compute_bitlen Let_def js_of_int_def js_of_real_def js_infinite_def
  js_is_zero_def js_inf_def js_zero_def js_le_def js_lt_def js_gt_def js_finite_def

text \<open>Rounding moves a magnitude by at most half the spacing at that magnitude.\<close>

lemma round_even_error: "\<bar>of_int (round_even x) - x\<bar> \<le> 1 / 2"
  unfolding round_even_def Let_def by (auto simp: abs_le_iff)

lemma ulp64_pos: "0 < ulp64 m"
  by (simp add: ulp64_def)

lemma rnd64_error: "\<bar>rnd64 m - m\<bar> \<le> ulp64 m / 2"
proof (cases "m = 0")
  case True
  then show ?thesis using ulp64_pos[of 0] by (simp add: rnd64_def)
next
  case False
  let ?u = "ulp64 m"
  have "rnd64 m - m = (of_int (round_even (m / ?u)) - m / ?u) * ?u"
    using False ulp64_pos[of m] by (simp add: rnd64_def field_simps)
  then have "\<bar>rnd64 m - m\<bar> = \<bar>of_int (round_even (m / ?u)) - m / ?u\<bar> * ?u"
    using ulp64_pos[of m] by (simp add: abs_mult)
  also have "\<dots> \<le> (1 / 2) * ?u"
    using round_even_error[of "m / ?u"] ulp64_pos[of m] by (intro mult_right_mono) auto
  finally show ?thesis by simp
qed

lemma val_js_round:
  "js_finite (js_round s m) \<Longrightarrow> val (js_round s m) = (if s then - rnd64 m else rnd64 m)"
  by (auto simp: js_round_def js_finite_def js_inf_def js_zero_def Let_def split: if_splits)

lemma val_js_neg: "val (js_neg y) = - val y"
  by (cases y) auto

lemma js_finite_neg: "js_finite (js_neg y) = js_finite y"
  by (cases y) (auto simp: js_finite_def)

lemma js_add_error:
  assumes "js_finite x" "js_finite y" "js_finite (js_add x y)"
  shows "\<bar>val (js_add x y) - (val x + val y)\<bar> \<le> ulp64 \<bar>val x + val y\<bar> / 2"
proof (cases "val x + val y = 0")
  case True
  then show ?thesis using assms ulp64_pos[of 0]
    by (auto simp: js_add_def js_finite_def js_infinite_def)
next
  case False
  let ?v = "val x + val y"
  have eq: "js_add x y = js_round (?v < 0) \<bar>?v\<bar>"
    using assms False by (auto simp: js_add_def js_finite_def js_infinite_def Let_def)
  then have "val (js_add x y) = (if ?v < 0 then - rnd64 \<bar>?v\<bar> else rnd64 \<bar>?v\<bar>)"
    using assms(3) val_js_round by simp
  then have "\<bar>val (js_add x y) - ?v\<bar> = \<bar>rnd64 \<bar>?v\<bar> - \<bar>?v\<bar>\<bar>"
    by (auto simp: abs_if)
  then show ?thesis using rnd64_error[of "\<bar>?v\<bar>"] by simp
qed


section \<open>Rounding is monotone\<close>

lemma round_even_of_int: "round_even (of_int n) = n"
  by (simp add: round_even_def)

lemma round_even_mono:
  assumes "x \<le> y"
  shows "round_even x \<le> round_even y"
proof (cases "\<lfloor>x\<rfloor> = \<lfloor>y\<rfloor>")
  case True
  then show ?thesis using assms
    by (auto simp: round_even_def Let_def)
next
  case False
  then have lt: "\<lfloor>x\<rfloor> + 1 \<le> \<lfloor>y\<rfloor>" using assms floor_mono[of x y] by linarith
  have "round_even x \<le> \<lfloor>x\<rfloor> + 1" by (auto simp: round_even_def Let_def)
  moreover have "\<lfloor>y\<rfloor> \<le> round_even y" by (auto simp: round_even_def Let_def)
  ultimately show ?thesis using lt by linarith
qed

lemma powi_neg_nat: "(2::real) powi (- int j) = 1 / 2 ^ j"
  by (simp add: power_int_minus field_simps)

lemma ilog2_bounds:
  assumes "0 < m"
  shows "2 powi ilog2 m \<le> m" and "m < 2 powi (ilog2 m + 1)"
proof -
  have "2 powi ilog2 m \<le> m \<and> m < 2 powi (ilog2 m + 1)"
  proof (cases "1 \<le> m")
    case True
    let ?n = "\<lfloor>m\<rfloor>"
    have n: "0 < ?n" using True by simp
    from bitlen_bounds[OF n] have b: "2 ^ nat (bitlen ?n - 1) \<le> ?n" "?n < 2 ^ nat (bitlen ?n)"
      by auto
    have bl: "1 \<le> bitlen ?n" using n by (simp add: bitlen_alt_def)
    have e: "ilog2 m = bitlen ?n - 1" using True by (simp add: ilog2_def)
    have "(2::real) powi (bitlen ?n - 1) = 2 ^ nat (bitlen ?n - 1)"
      using bl by (simp add: power_int_def)
    moreover have "(2::real) ^ nat (bitlen ?n - 1) \<le> of_int ?n"
      using b(1) by (metis of_int_le_iff of_int_numeral of_int_power)
    moreover have "of_int ?n \<le> m" by (rule of_int_floor_le)
    ultimately have "(2::real) powi (bitlen ?n - 1) \<le> m" by linarith
    then have lo: "2 powi ilog2 m \<le> m" by (simp only: e)
    have "(2::real) powi (bitlen ?n) = 2 ^ nat (bitlen ?n)"
      using bl by (simp add: power_int_def)
    moreover have "?n + 1 \<le> 2 ^ nat (bitlen ?n)" using b(2) by simp
    then have "of_int (?n + 1) \<le> (2::real) ^ nat (bitlen ?n)"
      by (metis of_int_le_iff of_int_numeral of_int_power)
    moreover have "m < of_int (?n + 1)" by linarith
    ultimately have "m < (2::real) powi (bitlen ?n)" by linarith
    moreover have "ilog2 m + 1 = bitlen ?n" using e by simp
    ultimately have "m < 2 powi (ilog2 m + 1)" by (simp only:)
    with lo show ?thesis by simp
  next
    case False
    then have m1: "m < 1" by simp
    let ?N = "\<lceil>1 / m\<rceil>"
    have inv: "1 < 1 / m" using assms m1 by simp
    then have N2: "2 \<le> ?N" by linarith
    then have n: "0 < ?N - 1" by simp
    from bitlen_bounds[OF n] have b: "2 ^ nat (bitlen (?N - 1) - 1) \<le> ?N - 1"
      "?N - 1 < 2 ^ nat (bitlen (?N - 1))" by auto
    let ?k = "bitlen (?N - 1)"
    have bl: "1 \<le> ?k" using n by (simp add: bitlen_alt_def)
    have e: "ilog2 m = - ?k" using False by (simp add: ilog2_def)
    have "?N \<le> 2 ^ nat ?k" using b(2) by simp
    then have "of_int ?N \<le> (2::real) ^ nat ?k"
      by (metis of_int_le_iff of_int_numeral of_int_power)
    moreover have "1 / m \<le> of_int ?N" by (rule le_of_int_ceiling)
    ultimately have "1 / m \<le> 2 ^ nat ?k" by linarith
    then have "1 / 2 ^ nat ?k \<le> m" using assms
      by (simp add: field_simps)
    moreover have "(2::real) powi (- ?k) = 1 / 2 ^ nat ?k"
      using bl by (simp add: power_int_def field_simps)
    ultimately have "(2::real) powi (- ?k) \<le> m" by linarith
    then have lo: "2 powi ilog2 m \<le> m" by (simp only: e)
    have "(2::real) ^ nat (?k - 1) \<le> of_int (?N - 1)"
      using b(1) by (metis of_int_le_iff of_int_numeral of_int_power)
    moreover have "of_int (?N - 1) < 1 / m" by linarith
    ultimately have "(2::real) ^ nat (?k - 1) < 1 / m" by linarith
    then have "m < 1 / 2 ^ nat (?k - 1)" using assms
      by (simp add: field_simps)
    moreover have "(2::real) powi (- ?k + 1) = 1 / 2 ^ nat (?k - 1)"
    proof -
      have eq: "- ?k + 1 = - int (nat (?k - 1))" using bl by simp
      show ?thesis unfolding eq by (rule powi_neg_nat)
    qed
    ultimately have "m < (2::real) powi (- ?k + 1)" by linarith
    then have "m < 2 powi (ilog2 m + 1)" by (simp only: e)
    with lo show ?thesis by simp
  qed
  then show "2 powi ilog2 m \<le> m" and "m < 2 powi (ilog2 m + 1)" by simp_all
qed


lemma ilog2_mono:
  assumes "0 < x" "x \<le> y"
  shows "ilog2 x \<le> ilog2 y"
proof (rule ccontr)
  assume "\<not> ilog2 x \<le> ilog2 y"
  then have "ilog2 y + 1 \<le> ilog2 x" by simp
  then have "(2::real) powi (ilog2 y + 1) \<le> 2 powi ilog2 x"
    by (intro power_int_increasing) simp_all
  moreover have "y < 2 powi (ilog2 y + 1)" using assms by (intro ilog2_bounds) simp
  moreover have "2 powi ilog2 x \<le> x" using assms by (intro ilog2_bounds)
  ultimately show False using assms(2) by linarith
qed

lemma powi_split: "(2::real) powi (e + 1) = 2 ^ 53 * 2 powi (e - 52)"
proof -
  have "(2::real) powi (53 + (e - 52)) = 2 powi 53 * 2 powi (e - 52)"
    by (rule power_int_add) simp
  moreover have "(2::real) powi 53 = 2 ^ 53" by simp
  moreover have "53 + (e - 52) = e + 1" by simp
  ultimately show ?thesis by simp
qed

lemma powi_split': "(2::real) powi e = 2 ^ 52 * 2 powi (e - 52)"
proof -
  have "(2::real) powi (52 + (e - 52)) = 2 powi 52 * 2 powi (e - 52)"
    by (rule power_int_add) simp
  moreover have "(2::real) powi 52 = 2 ^ 52" by simp
  ultimately show ?thesis by simp
qed

lemma rnd64_unfold: "m \<noteq> 0 \<Longrightarrow> rnd64 m = of_int (round_even (m / ulp64 m)) * ulp64 m"
  by (simp add: rnd64_def)

lemma rnd64_upper:
  assumes "0 < m"
  shows "rnd64 m \<le> 2 powi (max (ilog2 m) (- 1022) + 1)"
proof -
  let ?E = "max (ilog2 m) (- 1022)"
  let ?u = "ulp64 m"
  have u: "0 < ?u" by (rule ulp64_pos)
  have ud: "?u = 2 powi (?E - 52)" by (simp add: ulp64_def)
  have "m < 2 powi (ilog2 m + 1)" using assms by (rule ilog2_bounds)
  moreover have "(2::real) powi (ilog2 m + 1) \<le> 2 powi (?E + 1)"
    by (intro power_int_increasing) simp_all
  ultimately have "m \<le> 2 powi (?E + 1)" by linarith
  then have "m \<le> 2 ^ 53 * ?u" by (simp only: powi_split ud)
  then have "m / ?u \<le> 2 ^ 53" using u by (simp add: field_simps)
  then have "m / ?u \<le> of_int (2 ^ 53)" by simp
  then have "round_even (m / ?u) \<le> round_even (of_int (2 ^ 53))" by (rule round_even_mono)
  then have "round_even (m / ?u) \<le> 2 ^ 53" by (simp only: round_even_of_int)
  then have "(of_int (round_even (m / ?u)) :: real) \<le> of_int (2 ^ 53)"
    by (simp only: of_int_le_iff)
  then have "of_int (round_even (m / ?u)) * ?u \<le> of_int (2 ^ 53) * ?u"
    using u by (intro mult_right_mono) simp_all
  then have "rnd64 m \<le> 2 ^ 53 * ?u" using assms by (simp add: rnd64_unfold)
  then show ?thesis by (simp only: powi_split ud)
qed

lemma rnd64_lower:
  assumes "0 < m" "- 1022 \<le> ilog2 m"
  shows "2 powi ilog2 m \<le> rnd64 m"
proof -
  let ?u = "ulp64 m"
  have u: "0 < ?u" by (rule ulp64_pos)
  have ud: "?u = 2 powi (ilog2 m - 52)" using assms(2) by (simp add: ulp64_def max_def)
  have "2 powi ilog2 m \<le> m" using assms(1) by (rule ilog2_bounds)
  then have "2 ^ 52 * ?u \<le> m" by (simp only: powi_split'[of "ilog2 m"] ud)
  then have "2 ^ 52 \<le> m / ?u" using u by (simp add: field_simps)
  then have "of_int (2 ^ 52) \<le> m / ?u" by simp
  then have "round_even (of_int (2 ^ 52)) \<le> round_even (m / ?u)" by (rule round_even_mono)
  then have "2 ^ 52 \<le> round_even (m / ?u)" by (simp only: round_even_of_int)
  then have "(of_int (2 ^ 52) :: real) \<le> of_int (round_even (m / ?u))"
    by (simp only: of_int_le_iff)
  then have "of_int (2 ^ 52) * ?u \<le> of_int (round_even (m / ?u)) * ?u"
    using u by (intro mult_right_mono) simp_all
  then have "2 ^ 52 * ?u \<le> rnd64 m" using assms by (simp add: rnd64_unfold)
  then show ?thesis by (simp only: powi_split'[of "ilog2 m"] ud)
qed

lemma rnd64_nonneg:
  assumes "0 \<le> m"
  shows "0 \<le> rnd64 m"
proof (cases "m = 0")
  case True
  then show ?thesis by (simp add: rnd64_def)
next
  case False
  have u: "0 < ulp64 m" by (rule ulp64_pos)
  have "0 \<le> m / ulp64 m" using assms u by simp
  then have "of_int 0 \<le> m / ulp64 m" by simp
  then have "round_even (of_int 0) \<le> round_even (m / ulp64 m)" by (rule round_even_mono)
  then have "0 \<le> round_even (m / ulp64 m)" by (simp only: round_even_of_int)
  then show ?thesis using False u by (simp add: rnd64_unfold)
qed

lemma rnd64_mono:
  assumes "0 \<le> x" "x \<le> y"
  shows "rnd64 x \<le> rnd64 y"
proof (cases "x = 0")
  case True
  then show ?thesis using assms rnd64_nonneg[of y] by (simp add: rnd64_def)
next
  case False
  then have x: "0 < x" and y: "0 < y" using assms by simp_all
  let ?Ex = "max (ilog2 x) (- 1022)"
  let ?Ey = "max (ilog2 y) (- 1022)"
  have le: "?Ex \<le> ?Ey" using ilog2_mono[OF x assms(2)] by simp
  show ?thesis
  proof (cases "?Ex = ?Ey")
    case True
    then have u: "ulp64 x = ulp64 y" by (simp add: ulp64_def)
    have up: "0 < ulp64 y" by (rule ulp64_pos)
    have "x / ulp64 y \<le> y / ulp64 y" using assms(2) up by (simp add: divide_right_mono)
    then have "round_even (x / ulp64 y) \<le> round_even (y / ulp64 y)" by (rule round_even_mono)
    then have "(of_int (round_even (x / ulp64 y)) :: real) \<le> of_int (round_even (y / ulp64 y))"
      by (simp only: of_int_le_iff)
    then have "of_int (round_even (x / ulp64 y)) * ulp64 y
        \<le> of_int (round_even (y / ulp64 y)) * ulp64 y"
      using up by (intro mult_right_mono) simp_all
    then show ?thesis using x y u by (simp add: rnd64_unfold)
  next
    case False
    with le have lt: "?Ex < ?Ey" by linarith
    then have ey: "?Ey = ilog2 y" "- 1022 \<le> ilog2 y" by linarith+
    have "rnd64 x \<le> 2 powi (?Ex + 1)" using x by (rule rnd64_upper)
    moreover have "?Ex + 1 \<le> ilog2 y" using lt ey(1) by linarith
    then have "(2::real) powi (?Ex + 1) \<le> 2 powi ilog2 y"
      by (rule power_int_increasing) simp
    moreover have "2 powi ilog2 y \<le> rnd64 y" using y ey(2) by (rule rnd64_lower)
    ultimately show ?thesis by linarith
  qed
qed

text \<open>The equations that evaluate a rounding; 1 is a double.\<close>

lemmas rnd_eval = rnd64_def ulp64_def ilog2_def round_even_def compute_bitlen Let_def

lemma rnd64_one: "rnd64 1 = 1"
  by (simp add: rnd_eval)

lemma js_round_small:
  assumes "rnd64 m < 2 ^ 1024"
  shows "js_round False m = Fin (rnd64 m)"
  using assms by (simp add: js_round_def js_zero_def Let_def)



section \<open>Price fallback engine (price-service.ts)\<close>

datatype PriceProvider = COINGECKO | KRAKEN | CRYPTOCOMPARE | COINBASE | BINANCE

record PriceResult =
  price :: jsnum
  provider :: PriceProvider
  timestamp :: nat

record ApiKeys =
  coingecko :: "string option"
  cryptocompare :: "string option"
  binance :: "string option"

record PriceServiceOptions =
  symbol :: "string option"
  coingeckoId :: "string option"
  apiKeys :: "ApiKeys option"

text \<open>
  The five provider adapters are parameters. A call either throws (\<open>Inl\<close>), returns
  \<open>null\<close> (\<open>Inr None\<close>) or returns a number.
\<close>

record 'e Adapters =
  getCoingeckoPrice :: "string \<Rightarrow> string option \<Rightarrow> 'e + jsnum option"
  getKrakenPrice :: "string \<Rightarrow> 'e + jsnum option"
  getCryptoComparePrice :: "string \<Rightarrow> string option \<Rightarrow> 'e + jsnum option"
  getCoinbasePrice :: "string \<Rightarrow> 'e + jsnum option"
  getBinancePrice :: "string \<Rightarrow> string option \<Rightarrow> 'e + jsnum option"

definition PROVIDER_ORDER :: "PriceProvider list" where
  "PROVIDER_ORDER = [COINGECKO, KRAKEN, CRYPTOCOMPARE, COINBASE, BINANCE]"

text \<open>\<open>s || d\<close> on an optional string: \<open>undefined\<close> and the empty string are falsy.\<close>

definition str_or :: "string option \<Rightarrow> string \<Rightarrow> string" where
  "str_or s d = (case s of None \<Rightarrow> d | Some v \<Rightarrow> if v = [] then d else v)"

text \<open>\<open>apiKeys?.k\<close>\<close>

definition opt_key :: "ApiKeys option \<Rightarrow> (ApiKeys \<Rightarrow> string option) \<Rightarrow> string option" where
  "opt_key ks f = (case ks of None \<Rightarrow> None | Some k \<Rightarrow> f k)"

text \<open>The body of the \<open>switch\<close>: which adapter a provider stands for, and its arguments.\<close>

fun callProvider ::
  "'e Adapters \<Rightarrow> string \<Rightarrow> PriceServiceOptions \<Rightarrow> PriceProvider \<Rightarrow> 'e + jsnum option" where
  "callProvider ad symbolOrId opts COINGECKO =
     getCoingeckoPrice ad (str_or (coingeckoId opts) symbolOrId) (opt_key (apiKeys opts) coingecko)"
| "callProvider ad symbolOrId opts KRAKEN =
     getKrakenPrice ad (str_or (symbol opts) symbolOrId)"
| "callProvider ad symbolOrId opts CRYPTOCOMPARE =
     getCryptoComparePrice ad (str_or (symbol opts) symbolOrId) (opt_key (apiKeys opts) cryptocompare)"
| "callProvider ad symbolOrId opts COINBASE =
     getCoinbasePrice ad (str_or (symbol opts) symbolOrId)"
| "callProvider ad symbolOrId opts BINANCE =
     getBinancePrice ad (str_or (symbol opts) symbolOrId) (opt_key (apiKeys opts) binance)"

text \<open>
  The \<open>for\<close> loop over the providers, with its \<open>try\<close>/\<open>catch\<close>. The second component is
  the list of providers whose adapter was called, in call order.
\<close>

fun tryProviders ::
  "(PriceProvider \<Rightarrow> 'e + jsnum option) \<Rightarrow> nat \<Rightarrow> PriceProvider list
     \<Rightarrow> PriceResult option \<times> PriceProvider list" where
  "tryProviders call now [] = (None, [])"
| "tryProviders call now (p # ps) =
     (case call p of
        Inr (Some pr) \<Rightarrow>
          if js_gt pr (Fin 0)
          then (Some \<lparr>price = pr, provider = p, timestamp = now\<rparr>, [p])
          else (let (r, called) = tryProviders call now ps in (r, p # called))
      | Inr None \<Rightarrow> (let (r, called) = tryProviders call now ps in (r, p # called))
      | Inl e \<Rightarrow> (let (r, called) = tryProviders call now ps in (r, p # called)))"

definition getPriceWithFallback ::
  "'e Adapters \<Rightarrow> nat \<Rightarrow> string \<Rightarrow> PriceServiceOptions
     \<Rightarrow> PriceResult option \<times> PriceProvider list" where
  "getPriceWithFallback ad now symbolOrId opts =
     tryProviders (callProvider ad symbolOrId opts) now PROVIDER_ORDER"

text \<open>The price an adapter outcome yields, if any: a returned number that is \<open>> 0\<close>.\<close>

definition positivePrice :: "'e + jsnum option \<Rightarrow> jsnum option" where
  "positivePrice r = (case r of Inr (Some pr) \<Rightarrow> if js_gt pr (Fin 0) then Some pr else None | _ \<Rightarrow> None)"

lemma tryProviders_step:
  "tryProviders call now (p # ps) =
     (case positivePrice (call p) of
        Some pr \<Rightarrow> (Some \<lparr>price = pr, provider = p, timestamp = now\<rparr>, [p])
      | None \<Rightarrow> (let (r, called) = tryProviders call now ps in (r, p # called)))"
  by (simp add: positivePrice_def split: sum.splits option.splits)

text \<open>
  C6. For every query and every behaviour of the five adapters (returning a number,
  returning null, or throwing), \<open>getPriceWithFallback\<close> calls the adapters one after the
  other in the order CoinGecko, Kraken, CryptoCompare, Coinbase, Binance: CoinGecko with the
  CoinGecko id (\<open>coingeckoId || symbolOrId\<close>) and its API key, the others with the trading
  symbol (\<open>symbol || symbolOrId\<close>), CryptoCompare and Binance with their API keys. It
  returns the price and the identity of the first adapter in that order whose result is a
  number greater than zero, with the current time, and the adapters after it are not called.
  When no adapter yields such a price (each returns null, a number that is not greater than
  zero, or throws) all five are called and the result is null; no exception escapes, the
  result being a value in every case.
\<close>

theorem getPriceWithFallback_order:
  "getPriceWithFallback ad now symbolOrId opts =
     (let tradingSymbol = (case symbol opts of None \<Rightarrow> symbolOrId
                           | Some s \<Rightarrow> if s = [] then symbolOrId else s);
          geckoId = (case coingeckoId opts of None \<Rightarrow> symbolOrId
                     | Some s \<Rightarrow> if s = [] then symbolOrId else s);
          coingeckoKey = (case apiKeys opts of None \<Rightarrow> None | Some ks \<Rightarrow> coingecko ks);
          cryptocompareKey = (case apiKeys opts of None \<Rightarrow> None | Some ks \<Rightarrow> cryptocompare ks);
          binanceKey = (case apiKeys opts of None \<Rightarrow> None | Some ks \<Rightarrow> binance ks)
      in case positivePrice (getCoingeckoPrice ad geckoId coingeckoKey) of
           Some p \<Rightarrow> (Some \<lparr>price = p, provider = COINGECKO, timestamp = now\<rparr>, [COINGECKO])
         | None \<Rightarrow>
      (case positivePrice (getKrakenPrice ad tradingSymbol) of
           Some p \<Rightarrow> (Some \<lparr>price = p, provider = KRAKEN, timestamp = now\<rparr>,
                      [COINGECKO, KRAKEN])
         | None \<Rightarrow>
      (case positivePrice (getCryptoComparePrice ad tradingSymbol cryptocompareKey) of
           Some p \<Rightarrow> (Some \<lparr>price = p, provider = CRYPTOCOMPARE, timestamp = now\<rparr>,
                      [COINGECKO, KRAKEN, CRYPTOCOMPARE])
         | None \<Rightarrow>
      (case positivePrice (getCoinbasePrice ad tradingSymbol) of
           Some p \<Rightarrow> (Some \<lparr>price = p, provider = COINBASE, timestamp = now\<rparr>,
                      [COINGECKO, KRAKEN, CRYPTOCOMPARE, COINBASE])
         | None \<Rightarrow>
      (case positivePrice (getBinancePrice ad tradingSymbol binanceKey) of
           Some p \<Rightarrow> (Some \<lparr>price = p, provider = BINANCE, timestamp = now\<rparr>,
                      [COINGECKO, KRAKEN, CRYPTOCOMPARE, COINBASE, BINANCE])
         | None \<Rightarrow> (None, [COINGECKO, KRAKEN, CRYPTOCOMPARE, COINBASE, BINANCE]))))))"
proof -
  have five: "tryProviders call now [a, b, c, d, e] =
      (case positivePrice (call a) of
         Some p \<Rightarrow> (Some \<lparr>price = p, provider = a, timestamp = now\<rparr>, [a])
       | None \<Rightarrow>
      (case positivePrice (call b) of
         Some p \<Rightarrow> (Some \<lparr>price = p, provider = b, timestamp = now\<rparr>, [a, b])
       | None \<Rightarrow>
      (case positivePrice (call c) of
         Some p \<Rightarrow> (Some \<lparr>price = p, provider = c, timestamp = now\<rparr>, [a, b, c])
       | None \<Rightarrow>
      (case positivePrice (call d) of
         Some p \<Rightarrow> (Some \<lparr>price = p, provider = d, timestamp = now\<rparr>, [a, b, c, d])
       | None \<Rightarrow>
      (case positivePrice (call e) of
         Some p \<Rightarrow> (Some \<lparr>price = p, provider = e, timestamp = now\<rparr>, [a, b, c, d, e])
       | None \<Rightarrow> (None, [a, b, c, d, e]))))))"
    for call :: "PriceProvider \<Rightarrow> 'e + jsnum option" and a b c d e
    by (simp only: tryProviders_step tryProviders.simps(1)) (simp split: option.split)
  show ?thesis
    unfolding getPriceWithFallback_def PROVIDER_ORDER_def five callProvider.simps str_or_def
      opt_key_def Let_def
    by (rule refl)
qed

text \<open>
  A run: CoinGecko throws, Kraken returns 0, CryptoCompare returns 1850.25; Coinbase and
  Binance, which would return other prices, are not reached.
\<close>

definition sampleAdapters :: "string Adapters" where
  "sampleAdapters =
     \<lparr>getCoingeckoPrice = (\<lambda>gid k. if gid = ''ethereum'' \<and> k = Some ''cg-key'' then Inl ''HTTP 500'' else Inr (Some (Fin 1))),
      getKrakenPrice = (\<lambda>s. if s = ''ETH'' then Inr (Some (Fin 0)) else Inr (Some (Fin 2))),
      getCryptoComparePrice = (\<lambda>s k. if s = ''ETH'' \<and> k = None then Inr (Some (Fin (7401 / 4))) else Inr None),
      getCoinbasePrice = (\<lambda>s. Inr (Some (Fin 4))),
      getBinancePrice = (\<lambda>s k. Inr (Some (Fin 5)))\<rparr>"

lemma getPriceWithFallback_sample:
  "getPriceWithFallback sampleAdapters 1700000000000 ''ETH''
     \<lparr>symbol = None, coingeckoId = Some ''ethereum'',
      apiKeys = Some \<lparr>coingecko = Some ''cg-key'', cryptocompare = None, binance = Some ''b''\<rparr>\<rparr>
   = (Some \<lparr>price = Fin (7401 / 4), provider = CRYPTOCOMPARE, timestamp = 1700000000000\<rparr>,
      [COINGECKO, KRAKEN, CRYPTOCOMPARE])"
  by (simp add: getPriceWithFallback_def PROVIDER_ORDER_def sampleAdapters_def str_or_def
      opt_key_def js_gt_def js_lt_def)

lemma getPriceWithFallback_all_fail:
  "getPriceWithFallback
     \<lparr>getCoingeckoPrice = (\<lambda>gid k. Inr None), getKrakenPrice = (\<lambda>s. Inl ''timeout''),
      getCryptoComparePrice = (\<lambda>s k. Inr (Some NaN)), getCoinbasePrice = (\<lambda>s. Inr (Some (Fin (- 3)))),
      getBinancePrice = (\<lambda>s k. Inr (Some NZero))\<rparr> 0 ''BTC''
     \<lparr>symbol = None, coingeckoId = None, apiKeys = None\<rparr>
   = (None, [COINGECKO, KRAKEN, CRYPTOCOMPARE, COINBASE, BINANCE])"
  by (simp add: getPriceWithFallback_def PROVIDER_ORDER_def str_or_def opt_key_def js_gt_def
      js_lt_def)

section \<open>Retry executor (api-retry.ts)\<close>

text \<open>
  A thrown value is \<open>None\<close> when it is falsy (\<open>undefined\<close>, \<open>null\<close>) and otherwise a value
  whose properties the classification reads: \<open>status\<close>, \<open>statusCode\<close> and
  \<open>response?.status\<close>, each a number or undefined, and \<open>message\<close>. A message is undefined
  (or \<open>null\<close>), a string, or a value of another type; a value of another type has no
  \<open>toLowerCase\<close> method, and calling it raises a \<open>TypeError\<close>.
\<close>

datatype js_message = NoMessage | StringMessage string | OtherMessage

record js_error =
  status :: "int option"
  statusCode :: "int option"
  responseStatus :: "int option"
  message :: js_message

datatype type_error = NotAFunction


text \<open>\<open>a || b\<close> on optional status codes: \<open>undefined\<close> and \<open>0\<close> are falsy.\<close>

definition status_or :: "int option \<Rightarrow> int option \<Rightarrow> int option" where
  "status_or a b = (case a of None \<Rightarrow> b | Some n \<Rightarrow> if n = 0 then b else a)"

definition errorStatus :: "js_error \<Rightarrow> int option" where
  "errorStatus e = status_or (status_or (status e) (statusCode e)) (responseStatus e)"

text \<open>
  \<open>String.prototype.toLowerCase\<close> on code units below 256: the letters \<open>A\<close> to \<open>Z\<close> and
  the capital letters U+00C0 to U+00DE (the sign U+00D7 apart) move 32 places up.
\<close>

definition lower_char :: "char \<Rightarrow> char" where
  "lower_char c =
     (let n = (of_char c :: nat)
      in if 65 \<le> n \<and> n \<le> 90 \<or> 192 \<le> n \<and> n \<le> 222 \<and> n \<noteq> 215 then char_of (n + 32) else c)"

definition toLowerCase :: "string \<Rightarrow> string" where
  "toLowerCase s = map lower_char s"

text \<open>\<open>error?.message?.toLowerCase() || ''\<close>\<close>

definition errorMessage :: "js_error \<Rightarrow> type_error + string" where
  "errorMessage e =
     (case message e of
        NoMessage \<Rightarrow> Inr []
      | StringMessage m \<Rightarrow> Inr (toLowerCase m)
      | OtherMessage \<Rightarrow> Inl NotAFunction)"

definition str_includes :: "string \<Rightarrow> string \<Rightarrow> bool" where
  "str_includes s t = sublist t s"

definition isRateLimitError :: "js_error option \<Rightarrow> type_error + bool" where
  "isRateLimitError error =
     (case error of
        None \<Rightarrow> Inr False
      | Some e \<Rightarrow>
          if errorStatus e = Some 429 then Inr True
          else (case errorMessage e of
                  Inl t \<Rightarrow> Inl t
                | Inr msg \<Rightarrow>
                    Inr (str_includes msg ''rate limit'' \<or>
                         str_includes msg ''too many requests'' \<or>
                         str_includes msg ''429'')))"

definition isRetryableError :: "js_error option \<Rightarrow> type_error + bool" where
  "isRetryableError error =
     (case error of
        None \<Rightarrow> Inr False
      | Some e \<Rightarrow>
          (case isRateLimitError error of
             Inl t \<Rightarrow> Inl t
           | Inr rateLimit \<Rightarrow>
               if rateLimit then Inr True
               else (case errorMessage e of
                       Inl t \<Rightarrow> Inl t
                     | Inr msg \<Rightarrow>
                         if str_includes msg ''network'' \<or>
                            str_includes msg ''timeout'' \<or>
                            str_includes msg ''econnrefused'' \<or>
                            str_includes msg ''enotfound''
                         then Inr True
                         else (case errorStatus e of
                                 None \<Rightarrow> Inr False
                               | Some st \<Rightarrow>
                                   if st = 0 then Inr False
                                   else Inr (500 \<le> st \<or> st = 408 \<or> st = 429)))))"





























lemmas classify_eval = isRetryableError_def isRateLimitError_def errorMessage_def
  errorStatus_def status_or_def str_includes_def toLowerCase_def lower_char_def





subsection \<open>The retry delay\<close>












section \<open>Fee computation (escrow-core.service.ts)\<close>

text \<open>
  An amount is passed as \<open>string | number\<close>; a string goes through \<open>parseFloat\<close>, which is
  a parameter of the model.
\<close>

datatype amount = AmountString string | AmountNumber jsnum

definition amountToNumber :: "(string \<Rightarrow> jsnum) \<Rightarrow> amount \<Rightarrow> jsnum" where
  "amountToNumber parseFloat a =
     (case a of AmountString s \<Rightarrow> parseFloat s | AmountNumber n \<Rightarrow> n)"

text \<open>
  The service holds \<open>this.contract\<close>, possibly unset. The contract's view function
  \<open>getUserFeePercentage\<close> returns the user's fee in basis points (a \<open>uint256\<close>) or the
  call fails.
\<close>

datatype 'e fee_error = ContractNotInitialized | ContractCallFailed 'e

record FeeCalculationResult =
  feePercentage :: jsnum
  feeAmount :: jsnum
  netAmount :: jsnum

definition getUserFeePercentage ::
  "(string \<Rightarrow> 'e + nat) option \<Rightarrow> string \<Rightarrow> 'e fee_error + jsnum" where
  "getUserFeePercentage contract userAddress =
     (case contract of
        None \<Rightarrow> Inl ContractNotInitialized
      | Some c \<Rightarrow>
          (case c userAddress of
             Inl e \<Rightarrow> Inl (ContractCallFailed e)
           | Inr feeBasisPoints \<Rightarrow> Inr (js_div (js_of_int (int feeBasisPoints)) (Fin 100))))"

definition calculateUserFee ::
  "(string \<Rightarrow> 'e + nat) option \<Rightarrow> (string \<Rightarrow> jsnum) \<Rightarrow> string \<Rightarrow> amount
     \<Rightarrow> 'e fee_error + FeeCalculationResult" where
  "calculateUserFee contract parseFloat userAddress amount =
     (case getUserFeePercentage contract userAddress of
        Inl e \<Rightarrow> Inl e
      | Inr feePct \<Rightarrow>
          (let amountNum = amountToNumber parseFloat amount;
               fee = js_mul amountNum (js_div feePct (Fin 100));
               net = js_sub amountNum fee
           in Inr \<lparr>feePercentage = feePct, feeAmount = fee, netAmount = net\<rparr>))"

text \<open>The literal \<open>0.0001\<close>.\<close>

definition tolerance :: jsnum where
  "tolerance = js_of_real (1 / 10000)"

definition validateClientFee ::
  "(string \<Rightarrow> 'e + nat) option \<Rightarrow> (string \<Rightarrow> jsnum) \<Rightarrow> string \<Rightarrow> amount \<Rightarrow> jsnum
     \<Rightarrow> 'e fee_error + bool" where
  "validateClientFee contract parseFloat userAddress amount clientProvidedFee =
     (case calculateUserFee contract parseFloat userAddress amount of
        Inl e \<Rightarrow> Inl e
      | Inr r \<Rightarrow>
          (let difference = js_abs (js_sub (feeAmount r) clientProvidedFee);
               percentDiff = js_div difference (feeAmount r)
           in Inr (js_le percentDiff tolerance)))"

section \<open>Properties of the fee computation\<close>

text \<open>
  A contract whose view function answers every address with the same basis points, and a
  \<open>parseFloat\<close> that is never consulted (the amounts below are numbers).
\<close>

definition fixedFeeTier :: "nat \<Rightarrow> string \<Rightarrow> unit + nat" where
  "fixedFeeTier bp userAddress = Inr bp"

definition noParse :: "string \<Rightarrow> jsnum" where
  "noParse s = NaN"

lemmas fee_eval = validateClientFee_def calculateUserFee_def getUserFeePercentage_def
  amountToNumber_def fixedFeeTier_def tolerance_def

text \<open>
  C1. The claim: when the authoritative fee is 0, \<open>validateClientFee\<close> returns true for a
  client fee of 0 and false for any other client fee. The function has no guard for a zero
  fee. For a user on a 0 basis-point tier and the amount 1000 the fee is \<open>+0\<close>, the client
  fee 0 gives \<open>0 / 0 = NaN\<close>, and \<open>NaN <= 0.0001\<close> is false: the matching fee is
  rejected. With the amount \<open>-5\<close> the fee is \<open>-0\<close>, the client fee 100 gives
  \<open>100 / -0 = -Infinity\<close>, and the non-zero fee is accepted.
\<close>

theorem validateClientFee_zero_fee:
  "calculateUserFee (Some (fixedFeeTier 0)) noParse ''0xA1'' (AmountNumber (Fin 1000))
     = Inr \<lparr>feePercentage = Fin 0, feeAmount = Fin 0, netAmount = Fin 1000\<rparr> \<and>
   validateClientFee (Some (fixedFeeTier 0)) noParse ''0xA1'' (AmountNumber (Fin 1000)) (Fin 0)
     = Inr False \<and>
   calculateUserFee (Some (fixedFeeTier 0)) noParse ''0xA1'' (AmountNumber (Fin (- 5)))
     = Inr \<lparr>feePercentage = Fin 0, feeAmount = NZero, netAmount = Fin (- 5)\<rparr> \<and>
   validateClientFee (Some (fixedFeeTier 0)) noParse ''0xA1'' (AmountNumber (Fin (- 5))) (Fin 100)
     = Inr True"
  by (simp add: fee_eval js_eval)

text \<open>
  An infinite authoritative fee (the amount \<open>Infinity\<close> on a 250 basis-point tier) is
  strictly positive, and the equal client fee is rejected: \<open>Infinity - Infinity\<close> is
  \<open>NaN\<close>.
\<close>

theorem validateClientFee_infinite_fee_counterexample:
  "calculateUserFee (Some (fixedFeeTier 250)) noParse ''0xA1'' (AmountNumber PInf)
     = Inr \<lparr>feePercentage = Fin (5 / 2), feeAmount = PInf, netAmount = NaN\<rparr> \<and>
   js_gt PInf (Fin 0) \<and>
   validateClientFee (Some (fixedFeeTier 250)) noParse ''0xA1'' (AmountNumber PInf) PInf
     = Inr False"
  by (simp add: fee_eval js_eval)

lemma js_sub_self: "js_finite x \<Longrightarrow> js_sub x x = Fin 0"
  by (cases x) (auto simp: js_sub_def js_add_def js_finite_def js_infinite_def)

lemma js_div_zero_pos: "js_finite x \<Longrightarrow> js_gt x (Fin 0) \<Longrightarrow> js_div (Fin 0) x = Fin 0"
  by (cases x)
     (auto simp: js_div_def js_finite_def js_infinite_def js_gt_def js_lt_def js_is_zero_def
        js_round_def rnd64_def js_zero_def)

lemma tolerance_value: "tolerance = Fin (7378697629483821 / 73786976294838206464)"
  by (simp add: tolerance_def js_eval)

text \<open>
  C5 (amended). When the authoritative fee computed by \<open>calculateUserFee\<close> is strictly
  positive, \<open>validateClientFee\<close> returns the truth value of
  \<open>|fee - clientFee| / fee <= 0.0001\<close>, each operation being the double-precision one
  and \<open>0.0001\<close> the double nearest to it; so a client fee whose computed relative
  deviation exceeds the tolerance yields false. A client fee equal to a finite authoritative
  fee yields true. When the authoritative fee is \<open>+Infinity\<close> every client fee, the
  equal one included, yields false.
\<close>

theorem validateClientFee_tolerance:
  assumes "calculateUserFee contract parseFloat userAddress amount = Inr r"
    and "js_gt (feeAmount r) (Fin 0)"
  shows
    "validateClientFee contract parseFloat userAddress amount clientFee =
       Inr (js_le (js_div (js_abs (js_sub (feeAmount r) clientFee)) (feeAmount r))
              (js_of_real (1 / 10000))) \<and>
     (js_finite (feeAmount r) \<longrightarrow>
        validateClientFee contract parseFloat userAddress amount (feeAmount r) = Inr True) \<and>
     (feeAmount r = PInf \<longrightarrow>
        validateClientFee contract parseFloat userAddress amount clientFee = Inr False)"
proof (intro conjI impI)
  show "validateClientFee contract parseFloat userAddress amount clientFee =
       Inr (js_le (js_div (js_abs (js_sub (feeAmount r) clientFee)) (feeAmount r))
              (js_of_real (1 / 10000)))"
    using assms(1) by (simp add: validateClientFee_def tolerance_def)
next
  assume fin: "js_finite (feeAmount r)"
  have "js_div (js_abs (js_sub (feeAmount r) (feeAmount r))) (feeAmount r) = Fin 0"
    using fin assms(2) by (simp add: js_sub_self js_div_zero_pos)
  then show "validateClientFee contract parseFloat userAddress amount (feeAmount r) = Inr True"
    using assms(1) by (simp add: validateClientFee_def tolerance_value js_le_def)
next
  assume inf: "feeAmount r = PInf"
  have "js_div (js_abs (js_sub PInf clientFee)) PInf = NaN"
    by (cases clientFee)
       (auto simp: js_sub_def js_add_def js_div_def js_infinite_def)
  then show "validateClientFee contract parseFloat userAddress amount clientFee = Inr False"
    using assms(1) inf by (simp add: validateClientFee_def js_le_def)
qed

text \<open>
  The examples of the specification: amount 1000 and client fee 25, with the authoritative
  fee 25 (250 basis points) and with 25.5 (255 basis points).
\<close>

theorem validateClientFee_tolerance_witness:
  "calculateUserFee (Some (fixedFeeTier 250)) noParse ''0xA1'' (AmountNumber (Fin 1000))
     = Inr \<lparr>feePercentage = Fin (5 / 2), feeAmount = Fin 25, netAmount = Fin 975\<rparr> \<and>
   js_gt (Fin 25) (Fin 0) \<and>
   validateClientFee (Some (fixedFeeTier 250)) noParse ''0xA1'' (AmountNumber (Fin 1000)) (Fin 25)
     = Inr True \<and>
   calculateUserFee (Some (fixedFeeTier 255)) noParse ''0xA1'' (AmountNumber (Fin 1000))
     = Inr \<lparr>feePercentage = Fin (2871044762448691 / 1125899906842624), feeAmount = Fin (51 / 2), netAmount = Fin (1949 / 2)\<rparr> \<and>
   validateClientFee (Some (fixedFeeTier 255)) noParse ''0xA1'' (AmountNumber (Fin 1000)) (Fin 25)
     = Inr False"
proof -
  have c: "calculateUserFee (Some (fixedFeeTier 250)) noParse ''0xA1'' (AmountNumber (Fin 1000))
     = Inr \<lparr>feePercentage = Fin (5 / 2), feeAmount = Fin 25, netAmount = Fin 975\<rparr>"
    by (simp add: fee_eval js_eval)
  have g: "js_gt (feeAmount \<lparr>feePercentage = Fin (5 / 2), feeAmount = Fin 25, netAmount = Fin 975\<rparr>)
      (Fin 0)"
    by (simp add: js_gt_def js_lt_def)
  have c2: "calculateUserFee (Some (fixedFeeTier 255)) noParse ''0xA1'' (AmountNumber (Fin 1000))
     = Inr \<lparr>feePercentage = Fin (2871044762448691 / 1125899906842624), feeAmount = Fin (51 / 2), netAmount = Fin (1949 / 2)\<rparr>"
    by (simp add: fee_eval js_eval)
  have g2: "js_gt (feeAmount \<lparr>feePercentage = Fin (2871044762448691 / 1125899906842624), feeAmount = Fin (51 / 2),
      netAmount = Fin (1949 / 2)\<rparr>) (Fin 0)"
    by (simp add: js_gt_def js_lt_def)
  have v1: "validateClientFee (Some (fixedFeeTier 250)) noParse ''0xA1'' (AmountNumber (Fin 1000))
      (Fin 25) = Inr True"
    using validateClientFee_tolerance[OF c g, THEN conjunct2, THEN conjunct1]
    by (simp add: js_finite_def)
  have v2: "validateClientFee (Some (fixedFeeTier 255)) noParse ''0xA1'' (AmountNumber (Fin 1000))
      (Fin 25) = Inr False"
    using validateClientFee_tolerance[OF c2 g2, THEN conjunct1, of "Fin 25"]
    by (simp add: js_eval)
  show ?thesis using c c2 v1 v2 by (simp add: js_gt_def js_lt_def)
qed


text \<open>
  The amount 14.1 on a 250 basis-point tier: \<open>feeAmount + netAmount\<close> is
  14.099999999999998, not the amount.
\<close>

theorem calculateUserFee_sum_counterexample:
  "js_of_real (141 / 10) = Fin (7937594343240499 / 562949953421312) \<and>
   calculateUserFee (Some (fixedFeeTier 250)) noParse ''0xA1''
       (AmountNumber (Fin (7937594343240499 / 562949953421312)))
     = Inr \<lparr>feePercentage = Fin (5 / 2),
            feeAmount = Fin (396879717162025 / 1125899906842624),
            netAmount = Fin (3869577242329743 / 281474976710656)\<rparr> \<and>
   js_add (Fin (396879717162025 / 1125899906842624)) (Fin (3869577242329743 / 281474976710656))
     = Fin (3968797171620249 / 281474976710656) \<and>
   \<not> js_eq (Fin (3968797171620249 / 281474976710656))
          (Fin (7937594343240499 / 562949953421312))"
  by (simp add: fee_eval js_eval js_eq_def)

text \<open>
  C7 (amended). When the contract returns the basis points \<open>bp\<close>, \<open>calculateUserFee\<close>
  returns a result with \<open>feePercentage = bp / 100\<close>,
  \<open>feeAmount = amount * (feePercentage / 100)\<close> and \<open>netAmount = amount - feeAmount\<close>,
  each operation rounded to double precision. The sum \<open>feeAmount + netAmount\<close> need not
  be the amount. When the numbers are finite, the sum computed in double precision differs
  from \<open>amount\<close> by at most two roundings, half the spacing of doubles at
  \<open>amount - feeAmount\<close> plus half the spacing of doubles at \<open>feeAmount + netAmount\<close>; and
  the sum of the two returned doubles as real numbers differs from \<open>amount\<close> by at most the
  first of the two, the rounding of the subtraction.
\<close>

theorem calculateUserFee_result:
  assumes "c userAddress = Inr bp"
  shows
    "\<exists>r. calculateUserFee (Some c) parseFloat userAddress amount = Inr r \<and>
       feePercentage r = js_div (js_of_int (int bp)) (Fin 100) \<and>
       feeAmount r = js_mul (amountToNumber parseFloat amount) (js_div (feePercentage r) (Fin 100)) \<and>
       netAmount r = js_sub (amountToNumber parseFloat amount) (feeAmount r) \<and>
       (js_finite (amountToNumber parseFloat amount) \<and> js_finite (feeAmount r) \<and>
        js_finite (netAmount r) \<and> js_finite (js_add (feeAmount r) (netAmount r)) \<longrightarrow>
          \<bar>val (js_add (feeAmount r) (netAmount r)) - val (amountToNumber parseFloat amount)\<bar>
            \<le> ulp64 \<bar>val (amountToNumber parseFloat amount) - val (feeAmount r)\<bar> / 2
              + ulp64 \<bar>val (feeAmount r) + val (netAmount r)\<bar> / 2 \<and>
          \<bar>val (feeAmount r) + val (netAmount r) - val (amountToNumber parseFloat amount)\<bar>
            \<le> ulp64 \<bar>val (amountToNumber parseFloat amount) - val (feeAmount r)\<bar> / 2)"
proof -
  let ?a = "amountToNumber parseFloat amount"
  let ?p = "js_div (js_of_int (int bp)) (Fin 100)"
  let ?f = "js_mul ?a (js_div ?p (Fin 100))"
  let ?n = "js_sub ?a ?f"
  have r: "calculateUserFee (Some c) parseFloat userAddress amount
      = Inr \<lparr>feePercentage = ?p, feeAmount = ?f, netAmount = ?n\<rparr>"
    using assms by (simp add: calculateUserFee_def getUserFeePercentage_def Let_def)
  have "\<bar>val (js_add ?f ?n) - val ?a\<bar>
          \<le> ulp64 \<bar>val ?a - val ?f\<bar> / 2 + ulp64 \<bar>val ?f + val ?n\<bar> / 2 \<and>
        \<bar>val ?f + val ?n - val ?a\<bar> \<le> ulp64 \<bar>val ?a - val ?f\<bar> / 2"
    if "js_finite ?a" "js_finite ?f" "js_finite ?n" "js_finite (js_add ?f ?n)"
  proof -
    have "\<bar>val (js_add ?a (js_neg ?f)) - (val ?a + val (js_neg ?f))\<bar>
        \<le> ulp64 \<bar>val ?a + val (js_neg ?f)\<bar> / 2"
      using that by (intro js_add_error) (simp_all add: js_finite_neg js_sub_def)
    then have sub: "\<bar>val ?f + val ?n - val ?a\<bar> \<le> ulp64 \<bar>val ?a - val ?f\<bar> / 2"
      by (simp add: val_js_neg js_sub_def abs_minus_commute algebra_simps)
    have add: "\<bar>val (js_add ?f ?n) - (val ?f + val ?n)\<bar> \<le> ulp64 \<bar>val ?f + val ?n\<bar> / 2"
      using that by (intro js_add_error)
    have "\<bar>val (js_add ?f ?n) - val ?a\<bar>
        \<le> \<bar>val (js_add ?f ?n) - (val ?f + val ?n)\<bar> + \<bar>val ?f + val ?n - val ?a\<bar>"
      by linarith
    then show ?thesis using sub add by linarith
  qed
  then show ?thesis using r by simp
qed

text \<open>The amount 1000 on a 250 basis-point tier, where the sum is exact.\<close>

theorem calculateUserFee_result_witness:
  "fixedFeeTier 250 ''0xA1'' = Inr 250 \<and>
   calculateUserFee (Some (fixedFeeTier 250)) noParse ''0xA1'' (AmountNumber (Fin 1000))
     = Inr \<lparr>feePercentage = Fin (5 / 2), feeAmount = Fin 25, netAmount = Fin 975\<rparr> \<and>
   js_finite (Fin 1000) \<and> js_finite (Fin 25) \<and> js_finite (Fin 975) \<and>
   js_add (Fin 25) (Fin 975) = Fin 1000 \<and>
   \<bar>val (js_add (Fin 25) (Fin 975)) - val (Fin 1000)\<bar>
     \<le> ulp64 \<bar>val (Fin 1000) - val (Fin 25)\<bar> / 2 + ulp64 \<bar>val (Fin 25) + val (Fin 975)\<bar> / 2 \<and>
   \<bar>val (Fin 25) + val (Fin 975) - val (Fin 1000)\<bar> \<le> ulp64 \<bar>val (Fin 1000) - val (Fin 25)\<bar> / 2"
proof -
  have t: "fixedFeeTier 250 ''0xA1'' = Inr 250" by (simp add: fixedFeeTier_def)
  have c: "calculateUserFee (Some (fixedFeeTier 250)) noParse ''0xA1'' (AmountNumber (Fin 1000))
     = Inr \<lparr>feePercentage = Fin (5 / 2), feeAmount = Fin 25, netAmount = Fin 975\<rparr>"
    by (simp add: fee_eval js_eval)
  have s: "js_add (Fin 25) (Fin 975) = Fin 1000" by (simp add: js_eval)
  obtain r where r: "calculateUserFee (Some (fixedFeeTier 250)) noParse ''0xA1''
        (AmountNumber (Fin 1000)) = Inr r"
    and b: "js_finite (amountToNumber noParse (AmountNumber (Fin 1000))) \<and>
        js_finite (feeAmount r) \<and> js_finite (netAmount r) \<and>
        js_finite (js_add (feeAmount r) (netAmount r)) \<longrightarrow>
          \<bar>val (js_add (feeAmount r) (netAmount r))
             - val (amountToNumber noParse (AmountNumber (Fin 1000)))\<bar>
            \<le> ulp64 \<bar>val (amountToNumber noParse (AmountNumber (Fin 1000)))
                 - val (feeAmount r)\<bar> / 2
              + ulp64 \<bar>val (feeAmount r) + val (netAmount r)\<bar> / 2 \<and>
          \<bar>val (feeAmount r) + val (netAmount r)
             - val (amountToNumber noParse (AmountNumber (Fin 1000)))\<bar>
            \<le> ulp64 \<bar>val (amountToNumber noParse (AmountNumber (Fin 1000)))
                 - val (feeAmount r)\<bar> / 2"
    using calculateUserFee_result[where c = "fixedFeeTier 250" and userAddress = "''0xA1''"
      and bp = 250 and parseFloat = noParse and amount = "AmountNumber (Fin 1000)", OF t]
    by blast
  from r c have req: "r = \<lparr>feePercentage = Fin (5 / 2), feeAmount = Fin 25, netAmount = Fin 975\<rparr>"
    by simp
  have fin: "js_finite (Fin 1000)" "js_finite (Fin 25)" "js_finite (Fin 975)"
    by (simp_all add: js_finite_def)
  from b have "\<bar>val (js_add (Fin 25) (Fin 975)) - val (Fin 1000)\<bar>
     \<le> ulp64 \<bar>val (Fin 1000) - val (Fin 25)\<bar> / 2 + ulp64 \<bar>val (Fin 25) + val (Fin 975)\<bar> / 2 \<and>
     \<bar>val (Fin 25) + val (Fin 975) - val (Fin 1000)\<bar> \<le> ulp64 \<bar>val (Fin 1000) - val (Fin 25)\<bar> / 2"
    unfolding req using fin s by (simp add: amountToNumber_def)
  then show ?thesis using t c s fin by blast
qed

section \<open>Amount conversion (token-helpers.ts)\<close>

subsection \<open>BigInt and decimal strings\<close>

datatype js_exception = RangeError | SyntaxError | InvalidDecimalNumberError

definition is_digit :: "char \<Rightarrow> bool" where
  "is_digit c = (c \<in> set ''0123456789'')"

text \<open>A decimal digit is a character of \<open>decimal_digits\<close>; its value is its position.\<close>

definition decimal_digits :: string where
  "decimal_digits = ''0123456789''"

definition digit_val :: "char \<Rightarrow> int" where
  "digit_val c =
     (if is_digit c then int (length (takeWhile (\<lambda>x. x \<noteq> c) decimal_digits)) else 0)"

definition digit_char :: "int \<Rightarrow> char" where
  "digit_char d = (if 0 \<le> d \<and> d < 10 then decimal_digits ! nat d else CHR ''0'')"

text \<open>The value of a string of decimal digits; the empty string has the value 0.\<close>

definition digits_val :: "string \<Rightarrow> int" where
  "digits_val s = foldl (\<lambda>acc c. acc * 10 + digit_val c) 0 s"

text \<open>The decimal digits of a non-negative integer.\<close>

function digits_of :: "int \<Rightarrow> string" where
  "digits_of n = (if n < 10 then [digit_char n] else digits_of (n div 10) @ [digit_char (n mod 10)])"
  by pat_completeness auto
termination
  by (relation "measure nat") auto

declare digits_of.simps [simp del]

text \<open>\<open>BigInt.prototype.toString()\<close>\<close>

definition BigInt_toString :: "int \<Rightarrow> string" where
  "BigInt_toString n = (if n < 0 then CHR ''-'' # digits_of (- n) else digits_of n)"

text \<open>
  \<open>BigInt(number)\<close>: the integer a number denotes, a \<open>RangeError\<close> when the number is not
  an integer (\<open>NaN\<close> and the infinities included).
\<close>

definition BigInt_of_number :: "jsnum \<Rightarrow> js_exception + int" where
  "BigInt_of_number x =
     (case x of
        Fin r \<Rightarrow> if of_int \<lfloor>r\<rfloor> = r then Inr \<lfloor>r\<rfloor> else Inl RangeError
      | NZero \<Rightarrow> Inr 0
      | _ \<Rightarrow> Inl RangeError)"

text \<open>
  A string is a list of code units below 256 (the type \<open>char\<close>), that is, a string of
  Latin-1 characters. The white space and line terminators of the language in that range
  are TAB, LF, VT, FF, CR, the space and the no-break space U+00A0.
\<close>

definition is_space :: "char \<Rightarrow> bool" where
  "is_space c =
     (c \<in> set [CHR '' '', CHR 0x09, CHR 0x0A, CHR 0x0B, CHR 0x0C, CHR 0x0D, CHR 0xA0])"

text \<open>
  \<open>BigInt(string)\<close>: surrounding white space is dropped; the empty string is 0; otherwise
  the string is a decimal integer with an optional sign, or an unsigned integer with the
  prefix \<open>0x\<close>, \<open>0o\<close> or \<open>0b\<close>; anything else is a \<open>SyntaxError\<close>.
\<close>

definition trim :: "string \<Rightarrow> string" where
  "trim s = rev (dropWhile is_space (rev (dropWhile is_space s)))"

definition radix_digit :: "char \<Rightarrow> int option" where
  "radix_digit c =
     (if is_digit c then Some (digit_val c)
      else if c = CHR ''a'' \<or> c = CHR ''A'' then Some 10
      else if c = CHR ''b'' \<or> c = CHR ''B'' then Some 11
      else if c = CHR ''c'' \<or> c = CHR ''C'' then Some 12
      else if c = CHR ''d'' \<or> c = CHR ''D'' then Some 13
      else if c = CHR ''e'' \<or> c = CHR ''E'' then Some 14
      else if c = CHR ''f'' \<or> c = CHR ''F'' then Some 15
      else None)"

definition radix_val :: "int \<Rightarrow> string \<Rightarrow> int option" where
  "radix_val b s =
     (if s \<noteq> [] \<and> list_all (\<lambda>c. case radix_digit c of None \<Rightarrow> False | Some d \<Rightarrow> d < b) s
      then Some (foldl (\<lambda>acc c. acc * b + the (radix_digit c)) 0 s)
      else None)"

definition decimal_val :: "string \<Rightarrow> int option" where
  "decimal_val s = (if s \<noteq> [] \<and> list_all is_digit s then Some (digits_val s) else None)"

definition BigInt_of_string :: "string \<Rightarrow> js_exception + int" where
  "BigInt_of_string str =
     (let s = trim str;
          r = (case s of
                 [] \<Rightarrow> Some 0
               | c # cs \<Rightarrow>
                   if c = CHR ''-'' then map_option uminus (decimal_val cs)
                   else if c = CHR ''+'' then decimal_val cs
                   else if c = CHR ''0'' \<and> cs \<noteq> [] \<and> (hd cs = CHR ''x'' \<or> hd cs = CHR ''X'')
                   then radix_val 16 (tl cs)
                   else if c = CHR ''0'' \<and> cs \<noteq> [] \<and> (hd cs = CHR ''o'' \<or> hd cs = CHR ''O'')
                   then radix_val 8 (tl cs)
                   else if c = CHR ''0'' \<and> cs \<noteq> [] \<and> (hd cs = CHR ''b'' \<or> hd cs = CHR ''B'')
                   then radix_val 2 (tl cs)
                   else decimal_val s)
      in case r of None \<Rightarrow> Inl SyntaxError | Some n \<Rightarrow> Inr n)"

text \<open>BigInt division and remainder truncate towards zero.\<close>

definition bigint_div :: "int \<Rightarrow> int \<Rightarrow> int" where
  "bigint_div a b = sgn a * sgn b * (\<bar>a\<bar> div \<bar>b\<bar>)"

definition bigint_rem :: "int \<Rightarrow> int \<Rightarrow> int" where
  "bigint_rem a b = sgn a * (\<bar>a\<bar> mod \<bar>b\<bar>)"

definition padStart :: "nat \<Rightarrow> char \<Rightarrow> string \<Rightarrow> string" where
  "padStart n c s = replicate (n - length s) c @ s"

definition padEnd :: "nat \<Rightarrow> char \<Rightarrow> string \<Rightarrow> string" where
  "padEnd n c s = s @ replicate (n - length s) c"

text \<open>\<open>s.replace(/0+$/, '')\<close>\<close>

definition trimTrailingZeros :: "string \<Rightarrow> string" where
  "trimTrailingZeros s = rev (dropWhile (\<lambda>c. c = CHR ''0'') (rev s))"

text \<open>
  \<open>10 ** decimals\<close> and \<open>Math.pow(10, decimals)\<close>, for a count of decimals. Up to
  \<open>10 ** 22\<close> the power of ten is a double and is the result. Beyond, the power is not a
  double and the language leaves the accuracy of the result to the implementation: there
  the result is the one the engine gives, a parameter.
\<close>

definition js_pow10 :: "(nat \<Rightarrow> jsnum) \<Rightarrow> nat \<Rightarrow> jsnum" where
  "js_pow10 enginePow decimals = (if decimals \<le> 22 then Fin (10 ^ decimals) else enginePow decimals)"

subsection \<open>toSmallestUnit and fromSmallestUnit\<close>

text \<open>
  \<open>toSmallestUnit\<close>. The parameter \<open>exp10\<close> is the engine's \<open>10 ** decimals\<close> beyond 22
  decimals.
\<close>

definition toSmallestUnit ::
  "(string \<Rightarrow> jsnum) \<Rightarrow> (nat \<Rightarrow> jsnum) \<Rightarrow> amount \<Rightarrow> nat \<Rightarrow> js_exception + string" where
  "toSmallestUnit parseFloat exp10 amount decimals =
     (let value = amountToNumber parseFloat amount
      in if js_isNaN value \<or> js_le value (Fin 0) then Inr ''0''
         else (case BigInt_of_number (js_pow10 exp10 decimals) of
                 Inl e \<Rightarrow> Inl e
               | Inr factor \<Rightarrow>
                   (case BigInt_of_number (js_floor value) of
                      Inl e \<Rightarrow> Inl e
                    | Inr wholePart \<Rightarrow>
                        (let decimalPart = js_sub value (js_floor value)
                         in case BigInt_of_number
                                   (js_floor (js_mul decimalPart (js_of_int factor))) of
                              Inl e \<Rightarrow> Inl e
                            | Inr decimalPartBigInt \<Rightarrow>
                                Inr (BigInt_toString (wholePart * factor + decimalPartBigInt))))))"

text \<open>
  \<open>fromSmallestUnit\<close>. Whatever the \<open>try\<close> block throws is caught, and the fallback
  divides in floating point; \<open>Number.prototype.toString\<close> is a parameter, and so are the
  engine's \<open>10 ** decimals\<close> and \<open>Math.pow(10, decimals)\<close> beyond 22 decimals.
\<close>

definition fromSmallestUnit ::
  "(string \<Rightarrow> jsnum) \<Rightarrow> (jsnum \<Rightarrow> string) \<Rightarrow> (nat \<Rightarrow> jsnum) \<Rightarrow> (nat \<Rightarrow> jsnum) \<Rightarrow> amount
     \<Rightarrow> nat \<Rightarrow> string" where
  "fromSmallestUnit parseFloat numberToString exp10 Math_pow10 amount decimals =
     (let value = (case amount of AmountString s \<Rightarrow> s | AmountNumber n \<Rightarrow> numberToString n);
          fallback = numberToString (js_div (parseFloat value) (js_pow10 Math_pow10 decimals))
      in case BigInt_of_string value of
           Inl e \<Rightarrow> fallback
         | Inr bigIntAmount \<Rightarrow>
             (case BigInt_of_number (js_pow10 exp10 decimals) of
                Inl e \<Rightarrow> fallback
              | Inr factor \<Rightarrow>
                  if factor = 0 then fallback
                  else (let wholePart = bigint_div bigIntAmount factor;
                            remainder = bigint_rem bigIntAmount factor;
                            decimalStr = padStart decimals CHR ''0'' (BigInt_toString remainder);
                            trimmedDecimal = trimTrailingZeros decimalStr
                        in if trimmedDecimal \<noteq> []
                           then BigInt_toString wholePart @ ''.'' @ trimmedDecimal
                           else BigInt_toString wholePart)))"

section \<open>Properties of the amount conversion\<close>

lemmas bigint_eval = BigInt_of_number_def BigInt_toString_def digits_of.simps digit_char_def
  decimal_digits_def

lemmas parse_eval = BigInt_of_string_def trim_def is_space_def decimal_val_def is_digit_def
  digits_val_def digit_val_def decimal_digits_def

lemmas tsu_eval = toSmallestUnit_def amountToNumber_def js_isNaN_def js_pow10_def

lemma js_pow10_2: "js_pow10 p 2 = Fin 100"
  by (simp add: js_pow10_def)

lemma js_pow10_18: "js_pow10 p 18 = Fin 1000000000000000000"
  by (simp add: js_pow10_def)

text \<open>
  C3. The claim: for a positive \<open>x\<close> with at most \<open>d\<close> fractional digits,
  \<open>fromSmallestUnit(toSmallestUnit(x, d), d)\<close> is \<open>x\<close>. The code multiplies the
  fractional part by \<open>10 ** d\<close> in floating point and takes the floor. For \<open>x = 0.57\<close>,
  \<open>d = 2\<close> the product is 56.99999999999999, so \<open>toSmallestUnit\<close> returns \<open>''56''\<close> and
  the round trip gives \<open>''0.56''\<close>. For \<open>x = 1.1\<close>, \<open>d = 18\<close> it returns
  \<open>''1100000000000000096''\<close> and the round trip gives \<open>''1.100000000000000096''\<close>.
\<close>

theorem smallestUnit_roundtrip_loses_precision:
  "js_of_real (57 / 100) = Fin (5134103575202365 / 9007199254740992) \<and>
   toSmallestUnit parseFloat exp10 (AmountNumber (Fin (5134103575202365 / 9007199254740992))) 2
     = Inr ''56'' \<and>
   fromSmallestUnit parseFloat numberToString exp10 Math_pow10 (AmountString ''56'') 2 = ''0.56'' \<and>
   js_of_real (11 / 10) = Fin (2476979795053773 / 2251799813685248) \<and>
   toSmallestUnit parseFloat exp10 (AmountNumber (Fin (2476979795053773 / 2251799813685248))) 18
     = Inr ''1100000000000000096'' \<and>
   fromSmallestUnit parseFloat numberToString exp10 Math_pow10
       (AmountString ''1100000000000000096'') 18
     = ''1.100000000000000096''"
proof -
  have n1: "js_of_real (57 / 100) = Fin (5134103575202365 / 9007199254740992)"
    by (simp add: js_eval)
  have t1: "toSmallestUnit parseFloat exp10
       (AmountNumber (Fin (5134103575202365 / 9007199254740992))) 2 = Inr ''56''"
    by (simp add: tsu_eval bigint_eval js_eval)
  have s1: "BigInt_of_string ''56'' = Inr 56"
    by (simp add: parse_eval)
  have b1: "BigInt_of_number (Fin 100) = Inr 100"
    by (simp add: bigint_eval)
  have f1: "fromSmallestUnit parseFloat numberToString exp10 Math_pow10 (AmountString ''56'') 2
      = ''0.56''"
  proof -
    have r: "bigint_rem 56 100 = 56" by (simp add: bigint_rem_def)
    have d: "bigint_div 56 100 = 0" by (simp add: bigint_div_def)
    have ts: "BigInt_toString 56 = ''56''" "BigInt_toString 0 = ''0''"
      by (simp_all add: bigint_eval)
    show ?thesis
      by (simp add: fromSmallestUnit_def s1 js_pow10_2 b1 r d ts padStart_def trimTrailingZeros_def)
  qed
  have n2: "js_of_real (11 / 10) = Fin (2476979795053773 / 2251799813685248)"
    by (simp add: js_eval)
  have t2: "toSmallestUnit parseFloat exp10
       (AmountNumber (Fin (2476979795053773 / 2251799813685248))) 18
     = Inr ''1100000000000000096''"
    by (simp add: tsu_eval bigint_eval js_eval)
  have s2: "BigInt_of_string ''1100000000000000096'' = Inr 1100000000000000096"
    by (simp add: parse_eval)
  have b2: "BigInt_of_number (Fin 1000000000000000000) = Inr 1000000000000000000"
    by (simp add: bigint_eval)
  have f2: "fromSmallestUnit parseFloat numberToString exp10 Math_pow10
       (AmountString ''1100000000000000096'') 18 = ''1.100000000000000096''"
  proof -
    have r: "bigint_rem 1100000000000000096 1000000000000000000 = 100000000000000096"
      by (simp add: bigint_rem_def)
    have d: "bigint_div 1100000000000000096 1000000000000000000 = 1"
      by (simp add: bigint_div_def)
    have ts: "BigInt_toString 100000000000000096 = ''100000000000000096''"
      "BigInt_toString 1 = ''1''"
      by (simp_all add: bigint_eval)
    show ?thesis
      by (simp add: fromSmallestUnit_def s2 js_pow10_18 b2 r d ts padStart_def trimTrailingZeros_def)
  qed
  show ?thesis using n1 t1 f1 n2 t2 f2 by simp
qed

text \<open>An engine power that is never consulted (the decimals below are at most 22).\<close>

definition noPow :: "nat \<Rightarrow> jsnum" where
  "noPow d = NaN"

text \<open>A positive amount below one smallest unit: 0.001 at 2 decimals is mapped to \<open>''0''\<close>.\<close>

theorem toSmallestUnit_small_positive_counterexample:
  "js_of_real (1 / 1000) = Fin (1152921504606847 / 1152921504606846976) \<and>
   js_gt (Fin (1152921504606847 / 1152921504606846976)) (Fin 0) \<and>
   toSmallestUnit noParse noPow (AmountNumber (Fin (1152921504606847 / 1152921504606846976))) 2
     = Inr ''0''"
proof -
  have n1: "js_of_real (1 / 1000) = Fin (1152921504606847 / 1152921504606846976)"
    by (simp add: js_eval)
  have t1: "toSmallestUnit noParse noPow
      (AmountNumber (Fin (1152921504606847 / 1152921504606846976))) 2 = Inr ''0''"
    by (simp add: tsu_eval bigint_eval js_eval)
  show ?thesis using n1 t1 by (simp add: js_gt_def js_lt_def)
qed


text \<open>Powers of ten up to \<open>10 ** 22\<close> are doubles.\<close>

lemma rnd64_pow10:
  assumes "d \<le> 22"
  shows "rnd64 (10 ^ d) = 10 ^ d"
proof -
  from assms have "d = 0 \<or> d = 1 \<or> d = 2 \<or> d = 3 \<or> d = 4 \<or> d = 5 \<or> d = 6 \<or> d = 7 \<or>
      d = 8 \<or> d = 9 \<or> d = 10 \<or> d = 11 \<or> d = 12 \<or> d = 13 \<or> d = 14 \<or> d = 15 \<or> d = 16 \<or>
      d = 17 \<or> d = 18 \<or> d = 19 \<or> d = 20 \<or> d = 21 \<or> d = 22"
    by arith
  then show ?thesis
    by (elim disjE) (simp_all add: rnd_eval)
qed

lemma pow10_bound: "d \<le> 22 \<Longrightarrow> (10::real) ^ d < 2 ^ 1024"
proof -
  assume "d \<le> 22"
  then have "(10::real) ^ d \<le> 10 ^ 22" by (intro power_increasing) simp_all
  also have "\<dots> < 2 ^ 1024" by simp
  finally show ?thesis .
qed

lemma js_pow10_exact:
  assumes "d \<le> 22"
  shows "js_pow10 p d = Fin (10 ^ d)"
  using assms by (simp add: js_pow10_def)

lemma js_of_int_double:
  assumes "0 < f" and "rnd64 f = f" and "f < 2 ^ 1024" and "of_int n = f"
  shows "js_of_int n = Fin f"
  using assms by (simp add: js_of_int_def js_of_real_def js_round_def js_zero_def Let_def)

text \<open>The fractional part of a non-negative number, as \<open>value - Math.floor(value)\<close>.\<close>

lemma js_sub_floor:
  assumes "0 \<le> r"
  shows "js_sub (Fin r) (js_floor (Fin r)) = Fin (rnd64 (r - of_int \<lfloor>r\<rfloor>))"
proof -
  let ?f = "r - of_int \<lfloor>r\<rfloor>"
  have f: "0 \<le> ?f" "?f \<le> 1" by linarith+
  have "rnd64 ?f \<le> rnd64 1" using f by (intro rnd64_mono) simp_all
  then have small: "rnd64 ?f < 2 ^ 1024" by (simp add: rnd64_one)
  show ?thesis
  proof (cases "?f = 0")
    case True
    then show ?thesis
      by (auto simp: js_sub_def js_add_def js_infinite_def rnd64_def)
  next
    case False
    have sg: "\<not> r < of_int \<lfloor>r\<rfloor>" "\<bar>?f\<bar> = ?f" by linarith+
    have "js_sub (Fin r) (js_floor (Fin r)) = js_round False ?f"
    proof (cases "\<lfloor>r\<rfloor> = 0")
      case True
      then show ?thesis using False assms by (simp add: js_sub_def js_add_def js_infinite_def)
    next
      case z: False
      then show ?thesis using False sg
        by (simp add: js_sub_def js_add_def js_infinite_def Let_def)
    qed
    then show ?thesis using small by (simp add: js_round_small)
  qed
qed

text \<open>
  The outcome of \<open>toSmallestUnit\<close> on a positive finite number when \<open>10 ** decimals\<close> is the
  integer-valued double \<open>f\<close>: a \<open>RangeError\<close> when the scaled fractional part overflows,
  and otherwise the digits of the sum of the two parts.
\<close>

lemma toSmallestUnit_positive:
  assumes "amountToNumber parseFloat amount = Fin r" and "0 < r"
    and "js_pow10 exp10 d = Fin f" and "0 < f" and "rnd64 f = f" and "f < 2 ^ 1024"
    and "of_int \<lfloor>f\<rfloor> = f"
  shows "toSmallestUnit parseFloat exp10 amount d =
     (if 2 ^ 1024 \<le> rnd64 (rnd64 (r - of_int \<lfloor>r\<rfloor>) * f) then Inl RangeError
      else Inr (BigInt_toString (\<lfloor>r\<rfloor> * \<lfloor>f\<rfloor> + \<lfloor>rnd64 (rnd64 (r - of_int \<lfloor>r\<rfloor>) * f)\<rfloor>)))"
proof -
  let ?q = "rnd64 (r - of_int \<lfloor>r\<rfloor>)"
  let ?p = "rnd64 (?q * f)"
  have q0: "0 \<le> ?q" by (intro rnd64_nonneg) linarith
  have notneg: "\<not> js_le (Fin r) (Fin 0)" using assms(2) by (simp add: js_le_def)
  have fac: "BigInt_of_number (js_pow10 exp10 d) = Inr \<lfloor>f\<rfloor>"
    using assms(7) by (simp add: assms(3) BigInt_of_number_def)
  have num: "js_of_int \<lfloor>f\<rfloor> = Fin f"
    using assms(4-7) by (intro js_of_int_double) simp_all
  have whole: "BigInt_of_number (Fin (of_int \<lfloor>r\<rfloor>)) = Inr \<lfloor>r\<rfloor>"
    by (simp add: BigInt_of_number_def)
  have "js_sub (Fin r) (js_floor (Fin r)) = Fin ?q"
    using assms(2) by (intro js_sub_floor) simp
  then have dec: "js_sub (Fin r) (Fin (of_int \<lfloor>r\<rfloor>)) = Fin ?q" by simp
  have mul: "js_mul (Fin ?q) (Fin f) = js_round False (?q * f)"
    using q0 assms(4) by (simp add: js_mul_def js_infinite_def)
  show ?thesis
  proof (cases "2 ^ 1024 \<le> ?p")
    case True
    then have m: "js_mul (Fin ?q) (Fin f) = PInf"
      by (simp add: mul js_round_def js_inf_def Let_def)
    have bi: "BigInt_of_number PInf = Inl RangeError"
      by (simp add: BigInt_of_number_def)
    show ?thesis
      unfolding toSmallestUnit_def assms(1) Let_def using True
      by (simp add: js_isNaN_def notneg fac whole dec num m bi)
  next
    case False
    then have "js_mul (Fin ?q) (Fin f) = Fin ?p"
      by (simp add: mul js_round_small)
    moreover have "BigInt_of_number (Fin (of_int \<lfloor>?p\<rfloor>)) = Inr \<lfloor>?p\<rfloor>"
      by (simp add: BigInt_of_number_def)
    ultimately show ?thesis
      unfolding toSmallestUnit_def assms(1) Let_def using False
      by (simp add: js_isNaN_def notneg fac whole dec num)
  qed
qed

lemma toSmallestUnit_sum_positive:
  assumes "0 < r" and "rnd64 r = r" and "0 < f" and "of_int \<lfloor>f\<rfloor> = f" and "1 \<le> r * f"
  shows "1 \<le> \<lfloor>r\<rfloor> * \<lfloor>f\<rfloor> + \<lfloor>rnd64 (rnd64 (r - of_int \<lfloor>r\<rfloor>) * f)\<rfloor>"
proof -
  let ?q = "rnd64 (r - of_int \<lfloor>r\<rfloor>)"
  let ?p = "rnd64 (?q * f)"
  have q0: "0 \<le> ?q" by (intro rnd64_nonneg) linarith
  have p0: "0 \<le> ?p" using q0 assms(3) by (intro rnd64_nonneg) simp
  have f1: "1 \<le> \<lfloor>f\<rfloor>" using assms(3,4) by linarith
  show ?thesis
  proof (cases "1 \<le> r")
    case True
    then have "1 \<le> \<lfloor>r\<rfloor>" by simp
    then have "1 * 1 \<le> \<lfloor>r\<rfloor> * \<lfloor>f\<rfloor>" using f1 by (intro mult_mono) simp_all
    moreover have "0 \<le> \<lfloor>?p\<rfloor>" using p0 by simp
    ultimately show ?thesis by linarith
  next
    case False
    then have "0 \<le> r \<and> r < 1" using assms(1) by simp
    then have fl: "\<lfloor>r\<rfloor> = 0" by linarith
    then have "?q = r" using assms(2) by simp
    then have "?p = rnd64 (r * f)" by simp
    moreover have "rnd64 1 \<le> rnd64 (r * f)" using assms(5) by (intro rnd64_mono) simp_all
    ultimately have "1 \<le> ?p" by (simp add: rnd64_one)
    then have "1 \<le> \<lfloor>?p\<rfloor>" by simp
    then show ?thesis using fl by simp
  qed
qed

lemma digits_of_nonempty: "digits_of n \<noteq> []"
  by (subst digits_of.simps) simp

lemma digit_char_not_zero:
  assumes "1 \<le> n" "n < 10"
  shows "digit_char n \<noteq> CHR ''0''"
proof -
  have d: "distinct decimal_digits" by (simp add: decimal_digits_def)
  have l: "nat n < length decimal_digits" "0 < length decimal_digits"
    using assms by (simp_all add: decimal_digits_def)
  have "decimal_digits ! nat n \<noteq> decimal_digits ! 0"
    using assms nth_eq_iff_index_eq[OF d l] by simp
  then show ?thesis using assms by (simp add: digit_char_def decimal_digits_def)
qed

lemma digits_of_not_zero:
  assumes "1 \<le> n"
  shows "digits_of n \<noteq> ''0''"
proof (cases "n < 10")
  case True
  then show ?thesis using digit_char_not_zero[OF assms True] by (subst digits_of.simps) simp
next
  case False
  have "length (digits_of (n div 10) @ [digit_char (n mod 10)]) \<noteq> length ''0''"
    using digits_of_nonempty[of "n div 10"] by (cases "digits_of (n div 10)") simp_all
  then have "digits_of (n div 10) @ [digit_char (n mod 10)] \<noteq> ''0''" by metis
  then show ?thesis using False by (subst digits_of.simps) simp
qed

lemma BigInt_toString_not_zero: "1 \<le> n \<Longrightarrow> BigInt_toString n \<noteq> ''0''"
  by (simp add: BigInt_toString_def digits_of_not_zero)

text \<open>
  C10 (amended). For every number of decimals \<open>d\<close>, \<open>toSmallestUnit\<close> returns \<open>''0''\<close> and
  does not throw whenever its amount is \<open>NaN\<close> (a string that does not parse included) or
  is not positive. A positive finite amount can be mapped to \<open>''0''\<close> as well. It is not
  when it is at least one smallest unit in this sense: the amount's double value \<open>v\<close> (for
  a string the double that \<open>parseFloat\<close> returns, not the decimal text) and the double \<open>F\<close>
  that \<open>10 ** d\<close> evaluates to satisfy \<open>v * F \<ge> 1\<close> in exact arithmetic. Then the result is
  never \<open>''0''\<close>. Up to 22 decimals \<open>F\<close> is \<open>10 ^ d\<close>, and the result is then a string other
  than \<open>''0''\<close>, no exception being thrown.
\<close>

theorem toSmallestUnit_zero_cases:
  "(js_isNaN (amountToNumber parseFloat amount) \<or> js_le (amountToNumber parseFloat amount) (Fin 0)
      \<longrightarrow> toSmallestUnit parseFloat exp10 amount d = Inr ''0'') \<and>
   (\<forall>v F. amountToNumber parseFloat amount = Fin v \<and> 0 < v \<and> rnd64 v = v \<and>
        js_pow10 exp10 d = Fin F \<and> rnd64 F = F \<and> F < 2 ^ 1024 \<and> 1 \<le> v * F
      \<longrightarrow> toSmallestUnit parseFloat exp10 amount d \<noteq> Inr ''0'') \<and>
   (\<forall>v. amountToNumber parseFloat amount = Fin v \<and> 0 < v \<and> rnd64 v = v \<and> d \<le> 22 \<and>
        1 \<le> v * 10 ^ d
      \<longrightarrow> (\<exists>s. toSmallestUnit parseFloat exp10 amount d = Inr s \<and> s \<noteq> ''0''))"
proof (intro conjI allI impI)
  assume "js_isNaN (amountToNumber parseFloat amount) \<or>
    js_le (amountToNumber parseFloat amount) (Fin 0)"
  then show "toSmallestUnit parseFloat exp10 amount d = Inr ''0''"
    by (simp add: toSmallestUnit_def)
next
  fix v F
  assume h: "amountToNumber parseFloat amount = Fin v \<and> 0 < v \<and> rnd64 v = v \<and>
        js_pow10 exp10 d = Fin F \<and> rnd64 F = F \<and> F < 2 ^ 1024 \<and> 1 \<le> v * F"
  have Fpos: "0 < F"
  proof (rule ccontr)
    assume "\<not> 0 < F"
    then have "v * F \<le> 0" using h by (simp add: mult_le_0_iff)
    then show False using h by linarith
  qed
  have notneg: "\<not> js_le (Fin v) (Fin 0)" using h by (simp add: js_le_def)
  show "toSmallestUnit parseFloat exp10 amount d \<noteq> Inr ''0''"
  proof (cases "of_int \<lfloor>F\<rfloor> = F")
    case False
    then have "BigInt_of_number (js_pow10 exp10 d) = Inl RangeError"
      using h by (simp add: BigInt_of_number_def)
    then show ?thesis
      using h notneg by (simp add: toSmallestUnit_def js_isNaN_def)
  next
    case True
    have eq: "toSmallestUnit parseFloat exp10 amount d =
       (if 2 ^ 1024 \<le> rnd64 (rnd64 (v - of_int \<lfloor>v\<rfloor>) * F) then Inl RangeError
        else Inr (BigInt_toString
               (\<lfloor>v\<rfloor> * \<lfloor>F\<rfloor> + \<lfloor>rnd64 (rnd64 (v - of_int \<lfloor>v\<rfloor>) * F)\<rfloor>)))"
      using h Fpos True by (intro toSmallestUnit_positive) simp_all
    have "1 \<le> \<lfloor>v\<rfloor> * \<lfloor>F\<rfloor> + \<lfloor>rnd64 (rnd64 (v - of_int \<lfloor>v\<rfloor>) * F)\<rfloor>"
      using h Fpos True by (intro toSmallestUnit_sum_positive) simp_all
    then have "BigInt_toString (\<lfloor>v\<rfloor> * \<lfloor>F\<rfloor> + \<lfloor>rnd64 (rnd64 (v - of_int \<lfloor>v\<rfloor>) * F)\<rfloor>)
        \<noteq> ''0''"
      by (rule BigInt_toString_not_zero)
    then show ?thesis unfolding eq by simp
  qed
next
  fix v
  assume h: "amountToNumber parseFloat amount = Fin v \<and> 0 < v \<and> rnd64 v = v \<and> d \<le> 22 \<and>
        1 \<le> v * 10 ^ d"
  let ?F = "(10::real) ^ d"
  let ?q = "rnd64 (v - of_int \<lfloor>v\<rfloor>)"
  let ?p = "rnd64 (?q * ?F)"
  have d: "d \<le> 22" using h by simp
  have int: "of_int \<lfloor>?F\<rfloor> = ?F"
    by (metis floor_of_int of_int_numeral of_int_power)
  have q0: "0 \<le> ?q" by (intro rnd64_nonneg) linarith
  have "v - of_int \<lfloor>v\<rfloor> \<le> 1" by linarith
  then have "?q \<le> rnd64 1" by (intro rnd64_mono) linarith+
  then have q1: "?q \<le> 1" by (simp add: rnd64_one)
  have "?q * ?F \<le> 1 * ?F" using q1 by (intro mult_right_mono) simp_all
  then have "?p \<le> rnd64 ?F" using q0 by (intro rnd64_mono) simp_all
  then have "?p \<le> ?F" by (simp only: rnd64_pow10[OF d])
  then have psmall: "\<not> 2 ^ 1024 \<le> ?p" using pow10_bound[OF d] by linarith
  have eq: "toSmallestUnit parseFloat exp10 amount d =
       (if 2 ^ 1024 \<le> ?p then Inl RangeError
        else Inr (BigInt_toString (\<lfloor>v\<rfloor> * \<lfloor>?F\<rfloor> + \<lfloor>?p\<rfloor>)))"
    using h int pow10_bound[OF d] rnd64_pow10[OF d] js_pow10_exact[OF d]
    by (intro toSmallestUnit_positive) simp_all
  have "1 \<le> \<lfloor>v\<rfloor> * \<lfloor>?F\<rfloor> + \<lfloor>?p\<rfloor>"
    using h int by (intro toSmallestUnit_sum_positive) simp_all
  then have "BigInt_toString (\<lfloor>v\<rfloor> * \<lfloor>?F\<rfloor> + \<lfloor>?p\<rfloor>) \<noteq> ''0''"
    by (rule BigInt_toString_not_zero)
  then show "\<exists>s. toSmallestUnit parseFloat exp10 amount d = Inr s \<and> s \<noteq> ''0''"
    unfolding eq using psmall by simp
qed

text \<open>
  Instances: a string that does not parse and a negative number at 18 decimals, 1.5 at 2
  decimals, and 3 at 23 decimals on an engine whose \<open>10 ** 23\<close> is the double nearest to
  the power.
\<close>

definition nearestPow :: "nat \<Rightarrow> jsnum" where
  "nearestPow d = js_of_real (10 ^ d)"

theorem toSmallestUnit_zero_cases_witness:
  "js_isNaN (amountToNumber noParse (AmountString ''abc'')) \<and>
   toSmallestUnit noParse noPow (AmountString ''abc'') 18 = Inr ''0'' \<and>
   js_le (amountToNumber noParse (AmountNumber (Fin (- 3)))) (Fin 0) \<and>
   toSmallestUnit noParse noPow (AmountNumber (Fin (- 3))) 18 = Inr ''0'' \<and>
   amountToNumber noParse (AmountNumber (Fin (3 / 2))) = Fin (3 / 2) \<and> (0::real) < 3 / 2 \<and>
   rnd64 (3 / 2) = 3 / 2 \<and> (2::nat) \<le> 22 \<and> (1::real) \<le> 3 / 2 * 10 ^ 2 \<and>
   (\<exists>s. toSmallestUnit noParse noPow (AmountNumber (Fin (3 / 2))) 2 = Inr s \<and> s \<noteq> ''0'') \<and>
   amountToNumber noParse (AmountNumber (Fin 3)) = Fin 3 \<and> (0::real) < 3 \<and> rnd64 3 = 3 \<and>
   js_pow10 nearestPow 23 = Fin 99999999999999991611392 \<and>
   rnd64 99999999999999991611392 = 99999999999999991611392 \<and>
   (99999999999999991611392::real) < 2 ^ 1024 \<and> (1::real) \<le> 3 * 99999999999999991611392 \<and>
   toSmallestUnit noParse nearestPow (AmountNumber (Fin 3)) 23 \<noteq> Inr ''0''"
proof -
  have a: "js_isNaN (amountToNumber noParse (AmountString ''abc''))"
    by (simp add: amountToNumber_def noParse_def js_isNaN_def)
  have b: "js_le (amountToNumber noParse (AmountNumber (Fin (- 3)))) (Fin 0)"
    by (simp add: amountToNumber_def js_le_def)
  have c: "amountToNumber noParse (AmountNumber (Fin (3 / 2))) = Fin (3 / 2) \<and> (0::real) < 3 / 2 \<and>
     rnd64 (3 / 2) = 3 / 2 \<and> (2::nat) \<le> 22 \<and> (1::real) \<le> 3 / 2 * 10 ^ 2"
    by (simp add: amountToNumber_def rnd_eval)
  have p: "js_pow10 nearestPow 23 = Fin 99999999999999991611392"
    by (simp add: js_pow10_def nearestPow_def js_eval)
  have r: "rnd64 99999999999999991611392 = 99999999999999991611392"
    by (simp add: rnd_eval)
  have e: "amountToNumber noParse (AmountNumber (Fin 3)) = Fin 3 \<and> (0::real) < 3 \<and> rnd64 3 = 3 \<and>
     js_pow10 nearestPow 23 = Fin 99999999999999991611392 \<and>
     rnd64 99999999999999991611392 = 99999999999999991611392 \<and>
     (99999999999999991611392::real) < 2 ^ 1024 \<and> (1::real) \<le> 3 * 99999999999999991611392"
    using p r by (simp add: amountToNumber_def rnd_eval)
  have 1: "toSmallestUnit noParse noPow (AmountString ''abc'') 18 = Inr ''0''"
    using toSmallestUnit_zero_cases[of noParse "AmountString ''abc''" noPow 18] a by blast
  have 2: "toSmallestUnit noParse noPow (AmountNumber (Fin (- 3))) 18 = Inr ''0''"
    using toSmallestUnit_zero_cases[of noParse "AmountNumber (Fin (- 3))" noPow 18] b by blast
  have 3: "\<exists>s. toSmallestUnit noParse noPow (AmountNumber (Fin (3 / 2))) 2 = Inr s \<and> s \<noteq> ''0''"
    using toSmallestUnit_zero_cases[of noParse "AmountNumber (Fin (3 / 2))" noPow 2] c by blast
  have 4: "toSmallestUnit noParse nearestPow (AmountNumber (Fin 3)) 23 \<noteq> Inr ''0''"
    using toSmallestUnit_zero_cases[of noParse "AmountNumber (Fin 3)" nearestPow 23] e by blast
  show ?thesis using a b c e 1 2 3 4 by blast
qed

subsection \<open>parseUnits and the escrow amounts\<close>

text \<open>
  \<open>Number(s)\<close> for a string \<open>s\<close> of the form \<open>digits.digits\<close> (either part may be empty,
  not both): the double nearest to the decimal; \<open>Number('.')\<close> is \<open>NaN\<close>.
\<close>

definition Number_of_decimal :: "string \<Rightarrow> string \<Rightarrow> jsnum" where
  "Number_of_decimal ip fp =
     (if ip = [] \<and> fp = [] then NaN
      else js_of_real (of_int (digits_val ip) + of_int (digits_val fp) / 10 ^ length fp))"

text \<open>\<open>Math.round\<close>: the nearest integer, a tie going up.\<close>

fun Math_round :: "jsnum \<Rightarrow> jsnum" where
  "Math_round (Fin r) = (if - 1 / 2 \<le> r \<and> r < 0 then NZero else Fin (of_int \<lfloor>r + 1 / 2\<rfloor>))"
| "Math_round x = x"

text \<open>The test \<open>/^(-?)([0-9]*)\.?([0-9]*)$/\<close>.\<close>

definition is_decimal_string :: "string \<Rightarrow> bool" where
  "is_decimal_string value =
     (let s = (if value \<noteq> [] \<and> hd value = CHR ''-'' then tl value else value);
          rest = dropWhile is_digit s
      in rest = [] \<or> hd rest = CHR ''.'' \<and> list_all is_digit (tl rest))"

text \<open>
  Modelled from the spec: \<open>parseUnits\<close> is imported from the viem library, which is not
  among the sources. The specification describes the conversion as fixed-point scaling of a
  decimal string to an integer at the given number of decimals. The definition follows the
  library's algorithm: the string is validated, split at the point, trailing zeros of the
  fraction are dropped, a fraction longer than \<open>decimals\<close> is rounded at its last kept
  digit, a shorter one is padded with zeros, and the digits are read as a BigInt.
\<close>

definition splitDecimal :: "string \<Rightarrow> bool \<times> string \<times> string" where
  "splitDecimal value =
     (let integer0 = takeWhile (\<lambda>c. c \<noteq> CHR ''.'') value;
          rest = dropWhile (\<lambda>c. c \<noteq> CHR ''.'') value;
          fraction0 = (if rest = [] then ''0'' else tl rest);
          negative = (integer0 \<noteq> [] \<and> hd integer0 = CHR ''-'')
      in (negative, if negative then tl integer0 else integer0, trimTrailingZeros fraction0))"

definition scaleDigits :: "string \<Rightarrow> string \<Rightarrow> nat \<Rightarrow> string \<times> string" where
  "scaleDigits integer fraction decimals =
     (if decimals = 0
      then (if js_eq (Math_round (Number_of_decimal [] fraction)) (Fin 1)
            then BigInt_toString (digits_val integer + 1) else integer, [])
      else if decimals < length fraction
      then (let left = take (decimals - 1) fraction;
                unit = take 1 (drop (decimals - 1) fraction);
                right = drop decimals fraction;
                rounded = Math_round (Number_of_decimal unit right);
                fraction1 = (if js_gt rounded (Fin 9)
                             then padStart (length left + 1) CHR ''0''
                                    (BigInt_toString (digits_val left + 1) @ ''0'')
                             else left @ BigInt_toString \<lfloor>val rounded\<rfloor>)
            in if decimals < length fraction1
               then (BigInt_toString (digits_val integer + 1), take decimals (drop 1 fraction1))
               else (integer, take decimals fraction1))
      else (integer, padEnd decimals CHR ''0'' fraction))"

definition parseUnits :: "string \<Rightarrow> nat \<Rightarrow> js_exception + int" where
  "parseUnits value decimals =
     (if \<not> is_decimal_string value then Inl InvalidDecimalNumberError
      else (let (negative, integer, fraction) = splitDecimal value;
                (integer1, fraction1) = scaleDigits integer fraction decimals
            in BigInt_of_string ((if negative then ''-'' else []) @ integer1 @ fraction1)))"

text \<open>
  \<open>getNativeCurrencyDecimals\<close> comes from the chain configuration module, which is not
  among the sources; it is a parameter.
\<close>

definition parseNativeAmount :: "(int \<Rightarrow> nat) \<Rightarrow> string \<Rightarrow> int \<Rightarrow> js_exception + int" where
  "parseNativeAmount getNativeCurrencyDecimals amount chainId =
     parseUnits amount (getNativeCurrencyDecimals chainId)"

definition isHederaChain :: "int \<Rightarrow> bool" where
  "isHederaChain chainId = (chainId = 296 \<or> chainId = 295)"

record ChainAmountPair =
  contractAmount :: int
  transactionValue :: int

definition getEscrowAmounts ::
  "(int \<Rightarrow> nat) \<Rightarrow> string \<Rightarrow> int \<Rightarrow> js_exception + ChainAmountPair" where
  "getEscrowAmounts getNativeCurrencyDecimals amount chainId =
     (if isHederaChain chainId
      then (case parseUnits amount 8 of
              Inl e \<Rightarrow> Inl e
            | Inr c \<Rightarrow>
                (case parseUnits amount 18 of
                   Inl e \<Rightarrow> Inl e
                 | Inr t \<Rightarrow> Inr \<lparr>contractAmount = c, transactionValue = t\<rparr>))
      else (case parseNativeAmount getNativeCurrencyDecimals amount chainId of
              Inl e \<Rightarrow> Inl e
            | Inr nativeAmount \<Rightarrow>
                Inr \<lparr>contractAmount = nativeAmount, transactionValue = nativeAmount\<rparr>))"

subsection \<open>Conversion from USD\<close>

text \<open>
  What a \<open>catch\<close> block tells apart in a thrown value: an \<open>Error\<close> object, with its
  message, or any other value.
\<close>

datatype js_thrown = ErrorObject string | NonError

text \<open>
  \<open>getPrice\<close> runs on the server (\<open>typeof window === 'undefined'\<close>) or in the browser. On
  the server it asks \<open>getCachedPrice\<close>, in the browser it posts to the prices endpoint; both
  are parameters, and either may throw. The body of a response is given by what
  \<open>response.json()\<close> and the access to \<open>data.price\<close> yield: a throw, no price, or a number.
  Whatever is thrown inside \<open>getPrice\<close> is caught, and the result is then \<open>null\<close>.
\<close>

datatype runtime = Server | Client

record PriceResponse =
  ok :: bool
  dataPrice :: "js_thrown + jsnum option"

record PriceEnv =
  window :: runtime
  getCachedPrice :: "string \<Rightarrow> PriceServiceOptions \<Rightarrow> js_thrown + PriceResult option"
  fetchPrices :: "string \<Rightarrow> string \<Rightarrow> js_thrown + PriceResponse"
  chainInfo :: "int \<Rightarrow> js_thrown + string option \<times> string"
  numberToString :: "jsnum \<Rightarrow> string"
  getNativeCurrencyDecimals :: "int \<Rightarrow> nat"
  thrownBy :: "js_exception \<Rightarrow> js_thrown"

text \<open>\<open>x || null\<close> on a number that may be missing.\<close>

definition num_or_null :: "jsnum option \<Rightarrow> jsnum option" where
  "num_or_null x = (case x of None \<Rightarrow> None | Some p \<Rightarrow> if js_truthy p then Some p else None)"

definition getPrice :: "PriceEnv \<Rightarrow> string \<Rightarrow> string option \<Rightarrow> jsnum option" where
  "getPrice env nativeSymbol geckoId =
     (case window env of
        Server \<Rightarrow>
          (case getCachedPrice env (str_or geckoId nativeSymbol)
                  \<lparr>symbol = Some nativeSymbol, coingeckoId = geckoId, apiKeys = None\<rparr> of
             Inl e \<Rightarrow> None
           | Inr priceResult \<Rightarrow> num_or_null (map_option price priceResult))
      | Client \<Rightarrow>
          (case fetchPrices env nativeSymbol (str_or geckoId (toLowerCase nativeSymbol)) of
             Inl e \<Rightarrow> None
           | Inr response \<Rightarrow>
               if \<not> ok response then None
               else (case dataPrice response of
                       Inl e \<Rightarrow> None
                     | Inr p \<Rightarrow> num_or_null p)))"

text \<open>The error that the \<open>catch\<close> block of \<open>convertUSDToWei\<close> throws in place of another.\<close>

definition conversionError :: "js_thrown \<Rightarrow> js_thrown" where
  "conversionError error =
     ErrorObject (''Failed to convert USD to Wei: '' @
       (case error of ErrorObject msg \<Rightarrow> msg | NonError \<Rightarrow> ''Unknown error''))"

text \<open>
  \<open>convertUSDToWei\<close>. The chain's CoinGecko id and currency symbol come from the chain
  configuration, \<open>chainInfo\<close>, whose import or lookup may throw. The second component of the
  result lists the price lookups made: the arguments of each call of \<open>getPrice\<close>.
\<close>

definition convertUSDToWei ::
  "PriceEnv \<Rightarrow> jsnum \<Rightarrow> int \<Rightarrow> (js_thrown + int) \<times> (string \<times> string option) list" where
  "convertUSDToWei env usdAmount chainId =
     (if js_eq usdAmount (Fin 0) then (Inr 0, [])
      else (case chainInfo env chainId of
              Inl e \<Rightarrow> (Inl (conversionError e), [])
            | Inr (geckoId, nativeSymbol) \<Rightarrow>
                (case getPrice env nativeSymbol geckoId of
                   None \<Rightarrow>
                     (Inl (conversionError (ErrorObject ''Unable to fetch current price'')),
                      [(nativeSymbol, geckoId)])
                 | Some nativePrice \<Rightarrow>
                     if \<not> js_truthy nativePrice \<or> js_le nativePrice (Fin 0)
                     then (Inl (conversionError (ErrorObject ''Unable to fetch current price'')),
                           [(nativeSymbol, geckoId)])
                     else (case parseNativeAmount (getNativeCurrencyDecimals env)
                                  (numberToString env (js_div usdAmount nativePrice)) chainId of
                             Inl e \<Rightarrow> (Inl (conversionError (thrownBy env e)), [(nativeSymbol, geckoId)])
                           | Inr wei \<Rightarrow> (Inr wei, [(nativeSymbol, geckoId)])))))"

text \<open>A number that is not greater than zero fails the test \<open>!price || price <= 0\<close>.\<close>

lemma not_positive_rejected:
  assumes "\<not> js_gt p (Fin 0)"
  shows "\<not> js_truthy p \<or> js_le p (Fin 0)"
  using assms by (cases p) (auto simp: js_gt_def js_lt_def js_le_def js_truthy_def js_is_zero_def)

lemma positive_accepted:
  assumes "js_gt p (Fin 0)"
  shows "\<not> (\<not> js_truthy p \<or> js_le p (Fin 0))"
  using assms by (cases p) (auto simp: js_gt_def js_lt_def js_le_def js_truthy_def js_is_zero_def)

text \<open>
  C9. For every chain id, \<open>convertUSDToWei\<close> with a USD amount equal to 0 (\<open>+0\<close> or \<open>-0\<close>)
  returns 0 and makes no price lookup. For every other USD amount, if the price service
  resolves no price greater than zero (on the server, \<open>getCachedPrice\<close> throws, returns
  null or returns a price that is not greater than zero; in the browser, the request
  throws, the response is not ok, its body cannot be read, or carries no price greater
  than zero), \<open>convertUSDToWei\<close> throws an error and returns no value; so it does when the
  chain configuration throws.
\<close>

theorem convertUSDToWei_zero_and_no_price:
  "(usdAmount = Fin 0 \<or> usdAmount = NZero
      \<longrightarrow> convertUSDToWei env usdAmount chainId = (Inr 0, [])) \<and>
   (usdAmount \<noteq> Fin 0 \<and> usdAmount \<noteq> NZero \<and> chainInfo env chainId = Inr (geckoId, nativeSymbol) \<and>
    window env = Server \<and>
    (\<forall>r. getCachedPrice env (case geckoId of None \<Rightarrow> nativeSymbol | Some g \<Rightarrow> if g = [] then nativeSymbol else g)
            \<lparr>symbol = Some nativeSymbol, coingeckoId = geckoId, apiKeys = None\<rparr> = Inr (Some r)
         \<longrightarrow> \<not> js_gt (price r) (Fin 0))
      \<longrightarrow> convertUSDToWei env usdAmount chainId =
            (Inl (ErrorObject ''Failed to convert USD to Wei: Unable to fetch current price''),
             [(nativeSymbol, geckoId)])) \<and>
   (usdAmount \<noteq> Fin 0 \<and> usdAmount \<noteq> NZero \<and> chainInfo env chainId = Inr (geckoId, nativeSymbol) \<and>
    window env = Client \<and>
    (\<forall>r p. fetchPrices env nativeSymbol
              (case geckoId of None \<Rightarrow> toLowerCase nativeSymbol | Some g \<Rightarrow> if g = [] then toLowerCase nativeSymbol else g)
              = Inr r \<and> ok r \<and> dataPrice r = Inr (Some p)
         \<longrightarrow> \<not> js_gt p (Fin 0))
      \<longrightarrow> convertUSDToWei env usdAmount chainId =
            (Inl (ErrorObject ''Failed to convert USD to Wei: Unable to fetch current price''),
             [(nativeSymbol, geckoId)])) \<and>
   (usdAmount \<noteq> Fin 0 \<and> usdAmount \<noteq> NZero \<and> chainInfo env chainId = Inl e
      \<longrightarrow> (\<exists>msg. convertUSDToWei env usdAmount chainId = (Inl (ErrorObject msg), [])))"
proof (intro conjI impI)
  assume "usdAmount = Fin 0 \<or> usdAmount = NZero"
  then show "convertUSDToWei env usdAmount chainId = (Inr 0, [])"
    by (auto simp: convertUSDToWei_def js_eq_def js_is_zero_def)
next
  assume h: "usdAmount \<noteq> Fin 0 \<and> usdAmount \<noteq> NZero \<and> chainInfo env chainId = Inr (geckoId, nativeSymbol) \<and>
    window env = Server \<and>
    (\<forall>r. getCachedPrice env (case geckoId of None \<Rightarrow> nativeSymbol | Some g \<Rightarrow> if g = [] then nativeSymbol else g)
            \<lparr>symbol = Some nativeSymbol, coingeckoId = geckoId, apiKeys = None\<rparr> = Inr (Some r)
         \<longrightarrow> \<not> js_gt (price r) (Fin 0))"
  have "getPrice env nativeSymbol geckoId = None \<or>
      (\<exists>p. getPrice env nativeSymbol geckoId = Some p \<and> \<not> js_gt p (Fin 0))"
    using h
    by (auto simp: getPrice_def num_or_null_def str_or_def split: sum.splits option.splits)
  then show "convertUSDToWei env usdAmount chainId =
            (Inl (ErrorObject ''Failed to convert USD to Wei: Unable to fetch current price''),
             [(nativeSymbol, geckoId)])"
    using h not_positive_rejected
    by (auto simp: convertUSDToWei_def conversionError_def js_eq_def js_is_zero_def)
next
  assume h: "usdAmount \<noteq> Fin 0 \<and> usdAmount \<noteq> NZero \<and> chainInfo env chainId = Inr (geckoId, nativeSymbol) \<and>
    window env = Client \<and>
    (\<forall>r p. fetchPrices env nativeSymbol
              (case geckoId of None \<Rightarrow> toLowerCase nativeSymbol | Some g \<Rightarrow> if g = [] then toLowerCase nativeSymbol else g)
              = Inr r \<and> ok r \<and> dataPrice r = Inr (Some p)
         \<longrightarrow> \<not> js_gt p (Fin 0))"
  have "getPrice env nativeSymbol geckoId = None \<or>
      (\<exists>p. getPrice env nativeSymbol geckoId = Some p \<and> \<not> js_gt p (Fin 0))"
    using h
    by (auto simp: getPrice_def num_or_null_def str_or_def split: sum.splits option.splits)
  then show "convertUSDToWei env usdAmount chainId =
            (Inl (ErrorObject ''Failed to convert USD to Wei: Unable to fetch current price''),
             [(nativeSymbol, geckoId)])"
    using h not_positive_rejected
    by (auto simp: convertUSDToWei_def conversionError_def js_eq_def js_is_zero_def)
next
  assume "usdAmount \<noteq> Fin 0 \<and> usdAmount \<noteq> NZero \<and> chainInfo env chainId = Inl e"
  then show "\<exists>msg. convertUSDToWei env usdAmount chainId = (Inl (ErrorObject msg), [])"
    by (simp add: convertUSDToWei_def conversionError_def js_eq_def js_is_zero_def)
qed

text \<open>
  Instances: a server on which the price service returns null, one on which it returns the
  price \<open>-5\<close>, a browser whose response carries the price 0, and a chain configuration that
  throws.
\<close>

definition serverEnv :: "PriceResult option \<Rightarrow> PriceEnv" where
  "serverEnv cached =
     \<lparr>window = Server, getCachedPrice = (\<lambda>q opts. Inr cached),
      fetchPrices = (\<lambda>s g. Inl NonError),
      chainInfo = (\<lambda>c. if c = 1 then Inr (Some ''ethereum'', ''ETH'') else Inl (ErrorObject ''Unsupported chain'')),
      numberToString = (\<lambda>n. ''0''), getNativeCurrencyDecimals = (\<lambda>c. 18),
      thrownBy = (\<lambda>e. NonError)\<rparr>"

definition clientEnv :: "PriceResponse \<Rightarrow> PriceEnv" where
  "clientEnv response =
     \<lparr>window = Client, getCachedPrice = (\<lambda>q opts. Inl NonError),
      fetchPrices = (\<lambda>s g. Inr response),
      chainInfo = (\<lambda>c. Inr (None, ''HBAR'')),
      numberToString = (\<lambda>n. ''0''), getNativeCurrencyDecimals = (\<lambda>c. 8),
      thrownBy = (\<lambda>e. NonError)\<rparr>"

theorem convertUSDToWei_zero_and_no_price_witness:
  "convertUSDToWei (serverEnv None) (Fin 0) 1 = (Inr 0, []) \<and>
   convertUSDToWei (serverEnv None) NZero 1 = (Inr 0, []) \<and>
   Fin 25 \<noteq> Fin 0 \<and> Fin 25 \<noteq> NZero \<and>
   chainInfo (serverEnv None) 1 = Inr (Some ''ethereum'', ''ETH'') \<and>
   window (serverEnv None) = Server \<and>
   convertUSDToWei (serverEnv None) (Fin 25) 1 =
     (Inl (ErrorObject ''Failed to convert USD to Wei: Unable to fetch current price''),
      [(''ETH'', Some ''ethereum'')]) \<and>
   convertUSDToWei
       (serverEnv (Some \<lparr>price = Fin (- 5), provider = KRAKEN, timestamp = 0\<rparr>)) (Fin 25) 1 =
     (Inl (ErrorObject ''Failed to convert USD to Wei: Unable to fetch current price''),
      [(''ETH'', Some ''ethereum'')]) \<and>
   chainInfo (clientEnv \<lparr>ok = True, dataPrice = Inr (Some (Fin 0))\<rparr>) 296 = Inr (None, ''HBAR'') \<and>
   window (clientEnv \<lparr>ok = True, dataPrice = Inr (Some (Fin 0))\<rparr>) = Client \<and>
   convertUSDToWei (clientEnv \<lparr>ok = True, dataPrice = Inr (Some (Fin 0))\<rparr>) (Fin 25) 296 =
     (Inl (ErrorObject ''Failed to convert USD to Wei: Unable to fetch current price''),
      [(''HBAR'', None)]) \<and>
   chainInfo (serverEnv None) 5 = Inl (ErrorObject ''Unsupported chain'') \<and>
   (\<exists>msg. convertUSDToWei (serverEnv None) (Fin 25) 5 = (Inl (ErrorObject msg), []))"
proof -
  note claim = convertUSDToWei_zero_and_no_price
  have z1: "convertUSDToWei (serverEnv None) (Fin 0) 1 = (Inr 0, [])"
    using claim[where usdAmount = "Fin 0" and env = "serverEnv None" and chainId = 1] by simp
  have z2: "convertUSDToWei (serverEnv None) NZero 1 = (Inr 0, [])"
    using claim[where usdAmount = NZero and env = "serverEnv None" and chainId = 1] by simp
  have s1: "convertUSDToWei (serverEnv None) (Fin 25) 1 =
     (Inl (ErrorObject ''Failed to convert USD to Wei: Unable to fetch current price''),
      [(''ETH'', Some ''ethereum'')])"
    using claim[where usdAmount = "Fin 25" and env = "serverEnv None" and chainId = 1
        and geckoId = "Some ''ethereum''" and nativeSymbol = "''ETH''"]
    by (simp add: serverEnv_def)
  have s2: "convertUSDToWei
       (serverEnv (Some \<lparr>price = Fin (- 5), provider = KRAKEN, timestamp = 0\<rparr>)) (Fin 25) 1 =
     (Inl (ErrorObject ''Failed to convert USD to Wei: Unable to fetch current price''),
      [(''ETH'', Some ''ethereum'')])"
    using claim[where usdAmount = "Fin 25"
        and env = "serverEnv (Some \<lparr>price = Fin (- 5), provider = KRAKEN, timestamp = 0\<rparr>)"
        and chainId = 1 and geckoId = "Some ''ethereum''" and nativeSymbol = "''ETH''"]
    by (simp add: serverEnv_def js_gt_def js_lt_def)
  have c1: "convertUSDToWei (clientEnv \<lparr>ok = True, dataPrice = Inr (Some (Fin 0))\<rparr>) (Fin 25) 296 =
     (Inl (ErrorObject ''Failed to convert USD to Wei: Unable to fetch current price''),
      [(''HBAR'', None)])"
    using claim[where usdAmount = "Fin 25"
        and env = "clientEnv \<lparr>ok = True, dataPrice = Inr (Some (Fin 0))\<rparr>"
        and chainId = 296 and geckoId = None and nativeSymbol = "''HBAR''"]
    by (simp add: clientEnv_def js_gt_def js_lt_def)
  have e1: "\<exists>msg. convertUSDToWei (serverEnv None) (Fin 25) 5 = (Inl (ErrorObject msg), [])"
    using claim[where usdAmount = "Fin 25" and env = "serverEnv None" and chainId = 5
        and e = "ErrorObject ''Unsupported chain''"]
    by (simp add: serverEnv_def)
  show ?thesis using z1 z2 s1 s2 c1 e1 by (simp add: serverEnv_def clientEnv_def)
qed

end
